theory Spec2Isabelle
  imports Main "HOL-Library.AList"
begin

section \<open>Python values\<close>

text \<open>
  An embedding of the query parser (\<open>query_parser.py\<close>), the storage engine
  (\<open>storage_engine.py\<close>) and the query executor (\<open>query_executor.py\<close>).  A function of
  the source is a function here, under its name without the leading underscore; a loop is a
  recursive function over the list it walks; an exception is the \<open>Inl\<close> of a sum; a
  dictionary is an association list in insertion order; the engine is passed in and handed
  back.

  The values the parser produces and the storage engine keeps are \<open>None\<close>, \<open>bool\<close>,
  \<open>int\<close>, \<open>float\<close> and \<open>str\<close>.  Python's \<open>float\<close> is kept abstract: the
  carrier \<open>'f\<close> and the built-in operations on it that the program calls are the fields
  of a record handed to every function that needs them, and every property is proved for
  all such records.  Strings are ASCII: a character is whitespace, a letter or a digit as
  Python classifies the ASCII characters, and \<open>upper\<close> and \<open>lower\<close> change the
  ASCII letters.
\<close>

datatype 'f pyval = VNone | VBool bool | VInt int | VFloat 'f | VStr string

datatype cmp = CLt | CEq | CGt | CUn

datatype exn =
    ValueError string
  | TypeError string
  | KeyError string
  | IndexError string
  | OverflowError string

record 'f float_ops =
  float_of_str :: "string \<Rightarrow> 'f option"
  float_of_int :: "int \<Rightarrow> exn + 'f"
  int_of_float :: "'f \<Rightarrow> exn + int"
  str_of_float :: "'f \<Rightarrow> string"
  float_cmp :: "'f \<Rightarrow> 'f \<Rightarrow> cmp"
  float_cmp_int :: "'f \<Rightarrow> int \<Rightarrow> cmp"

fun str_exn :: "exn \<Rightarrow> string" where
  "str_exn (ValueError m) = m"
| "str_exn (TypeError m) = m"
| "str_exn (KeyError m) = m"
| "str_exn (IndexError m) = m"
| "str_exn (OverflowError m) = m"

fun type_name :: "'f pyval \<Rightarrow> string" where
  "type_name VNone = ''NoneType''"
| "type_name (VBool _) = ''bool''"
| "type_name (VInt _) = ''int''"
| "type_name (VFloat _) = ''float''"
| "type_name (VStr _) = ''str''"

fun flip_cmp :: "cmp \<Rightarrow> cmp" where
  "flip_cmp CLt = CGt"
| "flip_cmp CGt = CLt"
| "flip_cmp CEq = CEq"
| "flip_cmp CUn = CUn"

definition int_cmp :: "int \<Rightarrow> int \<Rightarrow> cmp" where
  "int_cmp a b = (if a < b then CLt else if a = b then CEq else CGt)"

fun str_cmp :: "string \<Rightarrow> string \<Rightarrow> cmp" where
  "str_cmp [] [] = CEq"
| "str_cmp [] (y # ys) = CLt"
| "str_cmp (x # xs) [] = CGt"
| "str_cmp (x # xs) (y # ys) =
     (if (of_char x :: nat) < of_char y then CLt
      else if (of_char y :: nat) < of_char x then CGt
      else str_cmp xs ys)"

definition int_of_bool :: "bool \<Rightarrow> int" where
  "int_of_bool b = (if b then 1 else 0)"

text \<open>
  \<open>py_cmp\<close> is the outcome of comparing two values where Python defines an order:
  numbers (\<open>bool\<close> counts as \<open>0\<close>/\<open>1\<close>) among themselves, strings among
  themselves by code point.  \<open>None\<close> for every other pair, where \<open><\<close>, \<open><=\<close>,
  \<open>>\<close>, \<open>>=\<close> raise \<open>TypeError\<close> and \<open>==\<close> is false.
\<close>

fun py_cmp :: "'f float_ops \<Rightarrow> 'f pyval \<Rightarrow> 'f pyval \<Rightarrow> cmp option" where
  "py_cmp F (VBool a) (VBool b) = Some (int_cmp (int_of_bool a) (int_of_bool b))"
| "py_cmp F (VBool a) (VInt b) = Some (int_cmp (int_of_bool a) b)"
| "py_cmp F (VBool a) (VFloat b) = Some (flip_cmp (float_cmp_int F b (int_of_bool a)))"
| "py_cmp F (VInt a) (VBool b) = Some (int_cmp a (int_of_bool b))"
| "py_cmp F (VInt a) (VInt b) = Some (int_cmp a b)"
| "py_cmp F (VInt a) (VFloat b) = Some (flip_cmp (float_cmp_int F b a))"
| "py_cmp F (VFloat a) (VBool b) = Some (float_cmp_int F a (int_of_bool b))"
| "py_cmp F (VFloat a) (VInt b) = Some (float_cmp_int F a b)"
| "py_cmp F (VFloat a) (VFloat b) = Some (float_cmp F a b)"
| "py_cmp F (VStr a) (VStr b) = Some (str_cmp a b)"
| "py_cmp F _ _ = None"

definition py_eq :: "'f float_ops \<Rightarrow> 'f pyval \<Rightarrow> 'f pyval \<Rightarrow> bool" where
  "py_eq F a b = (if a = VNone \<and> b = VNone then True else py_cmp F a b = Some CEq)"

definition not_supported :: "string \<Rightarrow> 'f pyval \<Rightarrow> 'f pyval \<Rightarrow> exn" where
  "not_supported opr a b =
     TypeError ([CHR 0x27] @ opr @ [CHR 0x27] @ '' not supported between instances of ''
                @ [CHR 0x27] @ type_name a @ [CHR 0x27] @ '' and ''
                @ [CHR 0x27] @ type_name b @ [CHR 0x27])"

definition py_lt :: "'f float_ops \<Rightarrow> 'f pyval \<Rightarrow> 'f pyval \<Rightarrow> exn + bool" where
  "py_lt F a b = (case py_cmp F a b of None \<Rightarrow> Inl (not_supported ''<'' a b)
                  | Some c \<Rightarrow> Inr (c = CLt))"

definition py_le :: "'f float_ops \<Rightarrow> 'f pyval \<Rightarrow> 'f pyval \<Rightarrow> exn + bool" where
  "py_le F a b = (case py_cmp F a b of None \<Rightarrow> Inl (not_supported ''<='' a b)
                  | Some c \<Rightarrow> Inr (c = CLt \<or> c = CEq))"

definition py_gt :: "'f float_ops \<Rightarrow> 'f pyval \<Rightarrow> 'f pyval \<Rightarrow> exn + bool" where
  "py_gt F a b = (case py_cmp F a b of None \<Rightarrow> Inl (not_supported ''>'' a b)
                  | Some c \<Rightarrow> Inr (c = CGt))"

definition py_ge :: "'f float_ops \<Rightarrow> 'f pyval \<Rightarrow> 'f pyval \<Rightarrow> exn + bool" where
  "py_ge F a b = (case py_cmp F a b of None \<Rightarrow> Inl (not_supported ''>='' a b)
                  | Some c \<Rightarrow> Inr (c = CGt \<or> c = CEq))"

section \<open>Rows and predicates\<close>

text \<open>
  A Python \<open>dict\<close> keeps insertion order, so a row is an association list: the first pair
  with a key is the entry.  A condition of a WHERE dictionary is a plain literal or a
  dictionary from operator text to literal.
\<close>

type_synonym 'f row = "(string \<times> 'f pyval) list"

datatype 'f cond = Plain "'f pyval" | Ops "(string \<times> 'f pyval) list"

type_synonym 'f where_clause = "(string \<times> 'f cond) list"

definition row_get :: "'f row \<Rightarrow> string \<Rightarrow> 'f pyval" where
  "row_get row c = (case map_of row c of None \<Rightarrow> VNone | Some v \<Rightarrow> v)"

text \<open>
  One arm of the operator chain of \<open>_matches_where_clause\<close>: \<open>Inr True\<close> when the arm
  executes \<open>return False\<close>, \<open>Inr False\<close> when the loop goes on, \<open>Inl\<close> when the
  comparison raises.
\<close>

definition op_rejects :: "'f float_ops \<Rightarrow> string \<Rightarrow> 'f pyval \<Rightarrow> 'f pyval \<Rightarrow> exn + bool" where
  "op_rejects F opr row_value v =
     (if opr = ''='' \<and> \<not> py_eq F row_value v then Inr True
      else if opr = ''>'' then (if row_value = VNone then Inr True else py_le F row_value v)
      else if opr = ''<'' then (if row_value = VNone then Inr True else py_ge F row_value v)
      else if opr = ''>='' then (if row_value = VNone then Inr True else py_lt F row_value v)
      else if opr = ''<='' then (if row_value = VNone then Inr True else py_gt F row_value v)
      else if opr = ''!='' \<and> py_eq F row_value v then Inr True
      else Inr False)"

fun ops_reject :: "'f float_ops \<Rightarrow> 'f pyval \<Rightarrow> (string \<times> 'f pyval) list \<Rightarrow> exn + bool" where
  "ops_reject F row_value [] = Inr False"
| "ops_reject F row_value ((opr, v) # rest) =
     (case op_rejects F opr row_value v of
        Inl e \<Rightarrow> Inl e
      | Inr True \<Rightarrow> Inr True
      | Inr False \<Rightarrow> ops_reject F row_value rest)"

definition cond_rejects :: "'f float_ops \<Rightarrow> 'f pyval \<Rightarrow> 'f cond \<Rightarrow> exn + bool" where
  "cond_rejects F row_value condition =
     (case condition of
        Ops d \<Rightarrow> ops_reject F row_value d
      | Plain lit \<Rightarrow> Inr (\<not> py_eq F row_value lit))"

fun matches_where_clause :: "'f float_ops \<Rightarrow> 'f row \<Rightarrow> 'f where_clause \<Rightarrow> exn + bool" where
  "matches_where_clause F row [] = Inr True"
| "matches_where_clause F row ((col_name, condition) # rest) =
     (case cond_rejects F (row_get row col_name) condition of
        Inl e \<Rightarrow> Inl e
      | Inr True \<Rightarrow> Inr False
      | Inr False \<Rightarrow> matches_where_clause F row rest)"

definition endswith :: "string \<Rightarrow> string \<Rightarrow> bool" where
  "endswith s suf = (length suf \<le> length s \<and> drop (length s - length suf) s = suf)"

definition join_row_value :: "'f row \<Rightarrow> string \<Rightarrow> 'f pyval" where
  "join_row_value row col_name =
     (case map_of row col_name of
        Some v \<Rightarrow> v
      | None \<Rightarrow>
          (case find (\<lambda>(row_col, _). endswith row_col (''.'' @ col_name)) row of
             Some (_, v) \<Rightarrow> v
           | None \<Rightarrow> VNone))"

fun matches_where_clause_join :: "'f float_ops \<Rightarrow> 'f row \<Rightarrow> 'f where_clause \<Rightarrow> exn + bool" where
  "matches_where_clause_join F row [] = Inr True"
| "matches_where_clause_join F row ((col_name, condition) # rest) =
     (case cond_rejects F (join_row_value row col_name) condition of
        Inl e \<Rightarrow> Inl e
      | Inr True \<Rightarrow> Inr False
      | Inr False \<Rightarrow> matches_where_clause_join F row rest)"


section \<open>Built-in conversions\<close>

definition is_space :: "char \<Rightarrow> bool" where
  "is_space c = (let n = (of_char c :: nat) in (9 \<le> n \<and> n \<le> 13) \<or> (28 \<le> n \<and> n \<le> 32))"

definition is_digit :: "char \<Rightarrow> bool" where
  "is_digit c = (let n = (of_char c :: nat) in 48 \<le> n \<and> n \<le> 57)"

definition is_upper :: "char \<Rightarrow> bool" where
  "is_upper c = (let n = (of_char c :: nat) in 65 \<le> n \<and> n \<le> 90)"

definition is_lower :: "char \<Rightarrow> bool" where
  "is_lower c = (let n = (of_char c :: nat) in 97 \<le> n \<and> n \<le> 122)"

definition is_word :: "char \<Rightarrow> bool" where
  "is_word c = (is_digit c \<or> is_upper c \<or> is_lower c \<or> c = CHR ''_'')"

definition upper_char :: "char \<Rightarrow> char" where
  "upper_char c = (if is_lower c then char_of (of_char c - (32 :: nat)) else c)"

definition lower_char :: "char \<Rightarrow> char" where
  "lower_char c = (if is_upper c then char_of (of_char c + (32 :: nat)) else c)"

definition upper :: "string \<Rightarrow> string" where
  "upper s = map upper_char s"

definition lower :: "string \<Rightarrow> string" where
  "lower s = map lower_char s"

definition lstrip :: "string \<Rightarrow> string" where
  "lstrip s = dropWhile is_space s"

definition rstrip :: "string \<Rightarrow> string" where
  "rstrip s = rev (dropWhile is_space (rev s))"

definition strip :: "string \<Rightarrow> string" where
  "strip s = rstrip (lstrip s)"

definition startswith :: "string \<Rightarrow> string \<Rightarrow> bool" where
  "startswith s pre = (take (length pre) s = pre)"

text \<open>\<open>s.split(c)\<close> for a one-character separator: the pieces between the occurrences.\<close>

fun split_char :: "char \<Rightarrow> string \<Rightarrow> string list" where
  "split_char sep [] = [[]]"
| "split_char sep (c # cs) =
     (if c = sep then [] # split_char sep cs
      else (case split_char sep cs of
              p # ps \<Rightarrow> (c # p) # ps
            | [] \<Rightarrow> [[c]]))"

definition digit_char :: "nat \<Rightarrow> char" where
  "digit_char n = char_of (48 + n)"

fun digits :: "nat \<Rightarrow> string" where
  "digits n = (if n < 10 then [digit_char n] else digits (n div 10) @ [digit_char (n mod 10)])"

declare digits.simps [simp del]

definition str_of_int :: "int \<Rightarrow> string" where
  "str_of_int i = (if i < 0 then ''-'' @ digits (nat (- i)) else digits (nat i))"

definition str_of_nat :: "nat \<Rightarrow> string" where
  "str_of_nat n = digits n"

text \<open>
  \<open>repr\<close> of a string, as it appears in the interpreter's own messages, for text without
  quotes, backslashes and control characters.
\<close>

definition quoted :: "string \<Rightarrow> string" where
  "quoted s = [CHR 0x27] @ s @ [CHR 0x27]"

definition py_repr_str :: "string \<Rightarrow> string" where
  "py_repr_str s = quoted s"

fun py_str :: "'f float_ops \<Rightarrow> 'f pyval \<Rightarrow> string" where
  "py_str F VNone = ''None''"
| "py_str F (VBool b) = (if b then ''True'' else ''False'')"
| "py_str F (VInt i) = str_of_int i"
| "py_str F (VFloat f) = str_of_float F f"
| "py_str F (VStr s) = s"

fun truthy :: "'f float_ops \<Rightarrow> 'f pyval \<Rightarrow> bool" where
  "truthy F VNone = False"
| "truthy F (VBool b) = b"
| "truthy F (VInt i) = (i \<noteq> 0)"
| "truthy F (VFloat f) = (float_cmp_int F f 0 \<noteq> CEq)"
| "truthy F (VStr s) = (s \<noteq> [])"

text \<open>
  \<open>int(s)\<close> for a string: surrounding whitespace is dropped, one sign is allowed, and the
  digits may be grouped by single underscores.  \<open>digit_groups\<close> reads the digits left to
  right with the value so far; the flag says that the previous character was a digit.
\<close>

fun digit_groups :: "string \<Rightarrow> nat \<Rightarrow> bool \<Rightarrow> nat option" where
  "digit_groups [] acc prev_digit = (if prev_digit then Some acc else None)"
| "digit_groups (c # cs) acc prev_digit =
     (if is_digit c then digit_groups cs (acc * 10 + (of_char c - 48)) True
      else if c = CHR ''_'' \<and> prev_digit then digit_groups cs acc False
      else None)"

definition int_of_str :: "string \<Rightarrow> int option" where
  "int_of_str s =
     (case strip s of
        [] \<Rightarrow> None
      | c # cs \<Rightarrow>
          if c = CHR ''-'' then map_option (\<lambda>n. - int n) (digit_groups cs 0 False)
          else if c = CHR ''+'' then map_option int (digit_groups cs 0 False)
          else map_option int (digit_groups (c # cs) 0 False))"

definition py_int_str :: "string \<Rightarrow> exn + int" where
  "py_int_str s =
     (case int_of_str s of
        Some i \<Rightarrow> Inr i
      | None \<Rightarrow> Inl (ValueError (''invalid literal for int() with base 10: '' @ py_repr_str s)))"

fun py_int :: "'f float_ops \<Rightarrow> 'f pyval \<Rightarrow> exn + int" where
  "py_int F VNone =
     Inl (TypeError (''int() argument must be a string, a bytes-like object or a real number, ''
                     @ ''not '' @ py_repr_str ''NoneType''))"
| "py_int F (VBool b) = Inr (int_of_bool b)"
| "py_int F (VInt i) = Inr i"
| "py_int F (VFloat f) = int_of_float F f"
| "py_int F (VStr s) = py_int_str s"

fun py_float :: "'f float_ops \<Rightarrow> 'f pyval \<Rightarrow> exn + 'f" where
  "py_float F VNone =
     Inl (TypeError (''float() argument must be a string or a real number, not ''
                     @ py_repr_str ''NoneType''))"
| "py_float F (VBool b) = float_of_int F (int_of_bool b)"
| "py_float F (VInt i) = float_of_int F i"
| "py_float F (VFloat f) = Inr f"
| "py_float F (VStr s) =
     (case float_of_str F s of
        Some f \<Rightarrow> Inr f
      | None \<Rightarrow> Inl (ValueError (''could not convert string to float: '' @ py_repr_str s)))"

section \<open>Storage engine\<close>

record col_def =
  cd_type :: string
  cd_not_null :: bool
  cd_primary_key :: bool
  cd_unique :: bool

record 'f table =
  columns :: "(string \<times> col_def) list"
  rows :: "'f row list"
  primary_key :: "string option"
  unique_keys :: "string list"

text \<open>
  An index is a dictionary keyed by values.  Python finds a key by \<open>==\<close> (the hashes of
  equal numbers agree), so \<open>1\<close>, \<open>True\<close> and \<open>1.0\<close> are one key; an assignment to a key
  that is present keeps the stored key and replaces the ordinal.  (Python also finds a key
  that is the very same object; that differs from \<open>==\<close> for a NaN only.)
\<close>

type_synonym 'f index = "('f pyval \<times> nat) list"

type_synonym 'f table_indexes = "(string \<times> 'f index) list"

definition idx_mem :: "'f float_ops \<Rightarrow> 'f index \<Rightarrow> 'f pyval \<Rightarrow> bool" where
  "idx_mem F idx k = list_ex (\<lambda>(k', _). py_eq F k' k) idx"

fun idx_get :: "'f float_ops \<Rightarrow> 'f index \<Rightarrow> 'f pyval \<Rightarrow> nat option" where
  "idx_get F [] k = None"
| "idx_get F ((k', i) # rest) k = (if py_eq F k' k then Some i else idx_get F rest k)"

fun idx_set :: "'f float_ops \<Rightarrow> 'f index \<Rightarrow> 'f pyval \<Rightarrow> nat \<Rightarrow> 'f index" where
  "idx_set F [] k i = [(k, i)]"
| "idx_set F ((k', i') # rest) k i =
     (if py_eq F k' k then (k', i) # rest else (k', i') # idx_set F rest k i)"

fun idx_del :: "'f float_ops \<Rightarrow> 'f index \<Rightarrow> 'f pyval \<Rightarrow> 'f index" where
  "idx_del F [] k = []"
| "idx_del F ((k', i') # rest) k =
     (if py_eq F k' k then rest else (k', i') # idx_del F rest k)"

text \<open>
  The engine: \<open>self.tables\<close>, \<open>self.indexes\<close>, and what \<open>tables.json\<close> and
  \<open>indexes.json\<close> hold, as the tables and indexes last passed to \<open>_save_tables\<close>.  An operation returns its result, or the exception it raises,
  together with the engine as the operation leaves it: the Python mutates in place, so
  what was written before a \<open>raise\<close> stays written.
\<close>

record 'f engine =
  tables :: "(string \<times> 'f table) list"
  indexes :: "(string \<times> 'f table_indexes) list"
  disk_tables :: "(string \<times> 'f table) list"
  disk_indexes :: "(string \<times> 'f table_indexes) list"

definition save_tables :: "'f engine \<Rightarrow> 'f engine" where
  "save_tables st = st\<lparr>disk_tables := tables st, disk_indexes := indexes st\<rparr>"

definition no_table :: "string \<Rightarrow> exn" where
  "no_table table_name = ValueError (''Table '' @ quoted table_name @ '' does not exist'')"

definition create_table ::
  "string \<Rightarrow> (string \<times> col_def) list \<Rightarrow> 'f engine \<Rightarrow> (exn + bool) \<times> 'f engine" where
  "create_table table_name cols st =
     (if map_of (tables st) table_name \<noteq> None
      then (Inl (ValueError (''Table '' @ quoted table_name @ '' already exists'')), st)
      else
        let primary_keys = map fst (filter (\<lambda>(_, d). cd_primary_key d) cols);
            uniq = map fst (filter (\<lambda>(_, d). cd_unique d) cols)
        in if length primary_keys > 1
           then (Inl (ValueError ''Multiple primary keys not supported''), st)
           else
             (Inr True,
              save_tables
                (st\<lparr>tables := AList.update table_name
                        \<lparr>columns = cols, rows = [],
                         primary_key = (case primary_keys of [] \<Rightarrow> None | k # _ \<Rightarrow> Some k),
                         unique_keys = uniq\<rparr> (tables st),
                    indexes := AList.update table_name
                        (fold (\<lambda>key d. AList.update key [] d) (primary_keys @ uniq) [])
                        (indexes st)\<rparr>)))"

text \<open>
  The size of a \<open>VARCHAR(n)\<close>: \<open>int(data_type.split('(')[1].split(')')[0])\<close>, evaluated
  only when \<open>(\<close> occurs in the type, so that the second piece is there.
\<close>

definition varchar_max_len :: "string \<Rightarrow> exn + int" where
  "varchar_max_len data_type =
     py_int_str (hd (split_char CHR '')'' (split_char CHR ''('' data_type ! 1)))"

definition validate_body :: "'f float_ops \<Rightarrow> 'f pyval \<Rightarrow> string \<Rightarrow> exn + 'f pyval" where
  "validate_body F v data_type =
     (if data_type = ''INT'' then map_sum id VInt (py_int F v)
      else if startswith data_type ''VARCHAR'' then
        (let str_val = py_str F v in
         if CHR ''('' \<in> set data_type then
           (case varchar_max_len data_type of
              Inl e \<Rightarrow> Inl e
            | Inr max_len \<Rightarrow>
                if int (length str_val) > max_len
                then Inl (ValueError (''String too long: '' @ str_of_nat (length str_val)
                                      @ '' > '' @ str_of_int max_len))
                else Inr (VStr str_val))
         else Inr (VStr str_val))
      else if data_type = ''FLOAT'' then map_sum id VFloat (py_float F v)
      else if data_type = ''BOOLEAN'' then
        (case v of
           VBool b \<Rightarrow> Inr v
         | _ \<Rightarrow> Inr (VBool (lower (py_str F v) \<in> set [''true'', ''1'', ''yes'', ''on''])))
      else if data_type = ''DATETIME'' then
        (case v of
           VStr s \<Rightarrow> Inr v
         | _ \<Rightarrow> Inr (VStr (py_str F v)))
      else Inr v)"

definition invalid_value :: "'f float_ops \<Rightarrow> 'f pyval \<Rightarrow> string \<Rightarrow> string \<Rightarrow> exn" where
  "invalid_value F v data_type e =
     ValueError (''Invalid value '' @ quoted (py_str F v) @ '' for type ''
                 @ quoted data_type @ '': '' @ e)"

definition validate_type :: "'f float_ops \<Rightarrow> 'f pyval \<Rightarrow> string \<Rightarrow> exn + 'f pyval" where
  "validate_type F v data_type =
     (if v = VNone then Inr VNone
      else (case validate_body F v data_type of
              Inl (ValueError e) \<Rightarrow> Inl (invalid_value F v data_type e)
            | Inl (TypeError e) \<Rightarrow> Inl (invalid_value F v data_type e)
            | Inl other \<Rightarrow> Inl other
            | Inr r \<Rightarrow> Inr r))"

definition key_error :: "string \<Rightarrow> exn" where
  "key_error k = KeyError (py_repr_str k)"

fun validate_row ::
  "'f float_ops \<Rightarrow> (string \<times> col_def) list \<Rightarrow> 'f row \<Rightarrow> 'f row \<Rightarrow> exn + 'f row" where
  "validate_row F [] row_data validated_row = Inr validated_row"
| "validate_row F ((col_name, cd) # rest) row_data validated_row =
     (let v = row_get row_data col_name in
      if cd_not_null cd \<and> v = VNone
      then Inl (ValueError (''Column '' @ quoted col_name @ '' cannot be NULL''))
      else if v \<noteq> VNone then
        (case validate_type F v (cd_type cd) of
           Inl e \<Rightarrow> Inl e
         | Inr r \<Rightarrow> validate_row F rest row_data (AList.update col_name r validated_row))
      else validate_row F rest row_data (AList.update col_name VNone validated_row))"

definition check_primary_key ::
  "'f float_ops \<Rightarrow> string \<Rightarrow> 'f table \<Rightarrow> 'f table_indexes option \<Rightarrow> 'f row \<Rightarrow> exn option" where
  "check_primary_key F table_name tbl tidx validated_row =
     (case primary_key tbl of
        None \<Rightarrow> None
      | Some pk \<Rightarrow>
          if pk = [] then None
          else (case map_of validated_row pk of
                  None \<Rightarrow> Some (key_error pk)
                | Some pk_value \<Rightarrow>
                    (case tidx of
                       None \<Rightarrow> Some (key_error table_name)
                     | Some ti \<Rightarrow>
                         (case map_of ti pk of
                            None \<Rightarrow> Some (key_error pk)
                          | Some idx \<Rightarrow>
                              if idx_mem F idx pk_value
                              then Some (ValueError (''Primary key violation: ''
                                           @ py_str F pk_value @ '' already exists''))
                              else None))))"

fun check_unique_keys ::
  "'f float_ops \<Rightarrow> string \<Rightarrow> string option \<Rightarrow> 'f table_indexes option \<Rightarrow> 'f row
     \<Rightarrow> string list \<Rightarrow> exn option" where
  "check_unique_keys F table_name pk tidx validated_row [] = None"
| "check_unique_keys F table_name pk tidx validated_row (unique_key # rest) =
     (if Some unique_key \<noteq> pk then
        (case map_of validated_row unique_key of
           None \<Rightarrow> Some (key_error unique_key)
         | Some uk_value \<Rightarrow>
             if truthy F uk_value then
               (case tidx of
                  None \<Rightarrow> Some (key_error table_name)
                | Some ti \<Rightarrow>
                    (case map_of ti unique_key of
                       None \<Rightarrow> Some (key_error unique_key)
                     | Some idx \<Rightarrow>
                         if idx_mem F idx uk_value
                         then Some (ValueError (''Unique constraint violation: ''
                                      @ py_str F uk_value @ '' already exists''))
                         else check_unique_keys F table_name pk tidx validated_row rest))
             else check_unique_keys F table_name pk tidx validated_row rest)
      else check_unique_keys F table_name pk tidx validated_row rest)"

definition index_row :: "'f float_ops \<Rightarrow> 'f row \<Rightarrow> nat \<Rightarrow> 'f table_indexes \<Rightarrow> 'f table_indexes" where
  "index_row F row i ti =
     map (\<lambda>(index_col, idx).
            (index_col,
             let v = row_get row index_col in if v \<noteq> VNone then idx_set F idx v i else idx)) ti"

definition insert_row ::
  "'f float_ops \<Rightarrow> string \<Rightarrow> 'f row \<Rightarrow> 'f engine \<Rightarrow> (exn + nat) \<times> 'f engine" where
  "insert_row F table_name row_data st =
     (case map_of (tables st) table_name of
        None \<Rightarrow> (Inl (no_table table_name), st)
      | Some tbl \<Rightarrow>
          (case validate_row F (columns tbl) row_data [] of
             Inl e \<Rightarrow> (Inl e, st)
           | Inr validated_row \<Rightarrow>
               let tidx = map_of (indexes st) table_name in
               (case check_primary_key F table_name tbl tidx validated_row of
                  Some e \<Rightarrow> (Inl e, st)
                | None \<Rightarrow>
                    (case check_unique_keys F table_name (primary_key tbl) tidx validated_row
                            (unique_keys tbl) of
                       Some e \<Rightarrow> (Inl e, st)
                     | None \<Rightarrow>
                         let row_id = length (rows tbl);
                             new_row = AList.update ''_row_id'' (VInt (int row_id)) validated_row;
                             st1 = st\<lparr>tables := AList.update table_name
                                        (tbl\<lparr>rows := rows tbl @ [new_row]\<rparr>) (tables st)\<rparr>
                         in (case tidx of
                               None \<Rightarrow> (Inl (key_error table_name), st1)
                             | Some ti \<Rightarrow>
                                 (Inr row_id,
                                  save_tables
                                    (st1\<lparr>indexes := AList.update table_name
                                            (index_row F new_row row_id ti) (indexes st1)\<rparr>)))))))"

fun filter_rows :: "'f float_ops \<Rightarrow> 'f where_clause \<Rightarrow> 'f row list \<Rightarrow> exn + 'f row list" where
  "filter_rows F wc [] = Inr []"
| "filter_rows F wc (row # rest) =
     (case matches_where_clause F row wc of
        Inl e \<Rightarrow> Inl e
      | Inr b \<Rightarrow>
          (case filter_rows F wc rest of
             Inl e \<Rightarrow> Inl e
           | Inr rs \<Rightarrow> Inr (if b then row # rs else rs)))"

definition select_rows ::
  "'f float_ops \<Rightarrow> string \<Rightarrow> 'f where_clause option \<Rightarrow> 'f engine \<Rightarrow> exn + 'f row list" where
  "select_rows F table_name wc st =
     (case map_of (tables st) table_name of
        None \<Rightarrow> Inl (no_table table_name)
      | Some tbl \<Rightarrow>
          (case wc of
             None \<Rightarrow> Inr (rows tbl)
           | Some w \<Rightarrow> if w = [] then Inr (rows tbl) else filter_rows F w (rows tbl)))"

text \<open>
  \<open>update_rows\<close> and \<open>delete_rows\<close> work on the row list of one table and on
  \<open>self.indexes[table_name]\<close> (\<open>None\<close> when that entry is missing, where the Python
  raises \<open>KeyError\<close> on reaching it).  The loops below thread this pair; the operation
  writes it back into the engine, also when a loop stops at an exception.
\<close>

type_synonym 'f tstate = "'f row list \<times> 'f table_indexes option"

definition conflicts :: "'f float_ops \<Rightarrow> 'f row list \<Rightarrow> nat \<Rightarrow> string \<Rightarrow> 'f pyval \<Rightarrow> bool" where
  "conflicts F rs i col_name new_value =
     list_ex (\<lambda>(j, other_row). i \<noteq> j \<and> py_eq F (row_get other_row col_name) new_value)
       (List.enumerate 0 rs)"

definition update_one ::
  "'f float_ops \<Rightarrow> string \<Rightarrow> (string \<times> col_def) list \<Rightarrow> string list \<Rightarrow> nat
     \<Rightarrow> string \<times> 'f pyval \<Rightarrow> 'f tstate \<Rightarrow> exn option \<times> 'f tstate" where
  "update_one F table_name cols uks i upd ts =
     (case upd of (col_name, new_value) \<Rightarrow>
      case ts of (rs, tidx) \<Rightarrow>
      (case map_of cols col_name of
         None \<Rightarrow> (None, ts)
       | Some cd \<Rightarrow>
           if (cd_primary_key cd \<or> col_name \<in> set uks) \<and> conflicts F rs i col_name new_value
           then (Some (ValueError (''Constraint violation: '' @ py_str F new_value
                                   @ '' already exists'')), ts)
           else
             let row = rs ! i; old_value = row_get row col_name in
             (case validate_type F new_value (cd_type cd) of
                Inl e \<Rightarrow> (Some e, ts)
              | Inr r \<Rightarrow>
                  let rs' = rs[i := AList.update col_name r row] in
                  (case tidx of
                     None \<Rightarrow> (Some (key_error table_name), (rs', None))
                   | Some ti \<Rightarrow>
                       (case map_of ti col_name of
                          None \<Rightarrow> (None, (rs', Some ti))
                        | Some idx \<Rightarrow>
                            (None,
                             (rs', Some (AList.update col_name
                                (idx_set F (if idx_mem F idx old_value
                                            then idx_del F idx old_value else idx)
                                   new_value i) ti))))))))"

fun update_assignments ::
  "'f float_ops \<Rightarrow> string \<Rightarrow> (string \<times> col_def) list \<Rightarrow> string list \<Rightarrow> nat
     \<Rightarrow> (string \<times> 'f pyval) list \<Rightarrow> 'f tstate \<Rightarrow> exn option \<times> 'f tstate" where
  "update_assignments F table_name cols uks i [] ts = (None, ts)"
| "update_assignments F table_name cols uks i (upd # rest) ts =
     (case update_one F table_name cols uks i upd ts of
        (Some e, ts') \<Rightarrow> (Some e, ts')
      | (None, ts') \<Rightarrow> update_assignments F table_name cols uks i rest ts')"

fun update_loop ::
  "'f float_ops \<Rightarrow> string \<Rightarrow> (string \<times> col_def) list \<Rightarrow> string list
     \<Rightarrow> (string \<times> 'f pyval) list \<Rightarrow> 'f where_clause \<Rightarrow> nat list \<Rightarrow> 'f tstate \<Rightarrow> nat
     \<Rightarrow> (exn + nat) \<times> 'f tstate" where
  "update_loop F table_name cols uks updates wc [] ts updated_count = (Inr updated_count, ts)"
| "update_loop F table_name cols uks updates wc (i # rest) ts updated_count =
     (case matches_where_clause F (fst ts ! i) wc of
        Inl e \<Rightarrow> (Inl e, ts)
      | Inr False \<Rightarrow> update_loop F table_name cols uks updates wc rest ts updated_count
      | Inr True \<Rightarrow>
          (case update_assignments F table_name cols uks i updates ts of
             (Some e, ts') \<Rightarrow> (Inl e, ts')
           | (None, ts') \<Rightarrow>
               update_loop F table_name cols uks updates wc rest ts' (updated_count + 1)))"

definition write_back :: "string \<Rightarrow> 'f table \<Rightarrow> 'f tstate \<Rightarrow> 'f engine \<Rightarrow> 'f engine" where
  "write_back table_name tbl ts st =
     st\<lparr>tables := AList.update table_name (tbl\<lparr>rows := fst ts\<rparr>) (tables st),
        indexes := (case snd ts of
                      None \<Rightarrow> indexes st
                    | Some ti \<Rightarrow> AList.update table_name ti (indexes st))\<rparr>"

definition update_rows ::
  "'f float_ops \<Rightarrow> string \<Rightarrow> (string \<times> 'f pyval) list \<Rightarrow> 'f where_clause \<Rightarrow> 'f engine
     \<Rightarrow> (exn + nat) \<times> 'f engine" where
  "update_rows F table_name updates wc st =
     (case map_of (tables st) table_name of
        None \<Rightarrow> (Inl (no_table table_name), st)
      | Some tbl \<Rightarrow>
          (case update_loop F table_name (columns tbl) (unique_keys tbl) updates wc
                  [0..<length (rows tbl)] (rows tbl, map_of (indexes st) table_name) 0 of
             (Inl e, ts) \<Rightarrow> (Inl e, write_back table_name tbl ts st)
           | (Inr n, ts) \<Rightarrow> (Inr n, save_tables (write_back table_name tbl ts st))))"

fun matching_ordinals ::
  "'f float_ops \<Rightarrow> 'f where_clause \<Rightarrow> (nat \<times> 'f row) list \<Rightarrow> exn + nat list" where
  "matching_ordinals F wc [] = Inr []"
| "matching_ordinals F wc ((i, row) # rest) =
     (case matches_where_clause F row wc of
        Inl e \<Rightarrow> Inl e
      | Inr b \<Rightarrow>
          (case matching_ordinals F wc rest of
             Inl e \<Rightarrow> Inl e
           | Inr is \<Rightarrow> Inr (if b then i # is else is)))"

definition unindex_row :: "'f float_ops \<Rightarrow> 'f row \<Rightarrow> 'f table_indexes \<Rightarrow> 'f table_indexes" where
  "unindex_row F row ti =
     map (\<lambda>(index_col, idx).
            (index_col,
             let v = row_get row index_col in if idx_mem F idx v then idx_del F idx v else idx)) ti"

fun delete_loop ::
  "'f float_ops \<Rightarrow> string \<Rightarrow> nat list \<Rightarrow> 'f tstate \<Rightarrow> exn option \<times> 'f tstate" where
  "delete_loop F table_name [] ts = (None, ts)"
| "delete_loop F table_name (i # rest) ts =
     (case ts of (rs, tidx) \<Rightarrow>
      (case tidx of
         None \<Rightarrow> (Some (key_error table_name), ts)
       | Some ti \<Rightarrow>
           delete_loop F table_name rest
             (take i rs @ drop (Suc i) rs, Some (unindex_row F (rs ! i) ti))))"

fun rebuild_rows ::
  "'f float_ops \<Rightarrow> nat \<Rightarrow> 'f row list \<Rightarrow> 'f table_indexes \<Rightarrow> 'f row list \<times> 'f table_indexes" where
  "rebuild_rows F i [] ti = ([], ti)"
| "rebuild_rows F i (row # rest) ti =
     (let row' = AList.update ''_row_id'' (VInt (int i)) row in
      case rebuild_rows F (Suc i) rest (index_row F row' i ti) of
        (rs, ti') \<Rightarrow> (row' # rs, ti'))"

definition rebuild_indexes ::
  "'f float_ops \<Rightarrow> (string \<times> col_def) list \<Rightarrow> 'f row list \<Rightarrow> 'f row list \<times> 'f table_indexes" where
  "rebuild_indexes F cols rs =
     rebuild_rows F 0 rs
       (fold (\<lambda>(col_name, cd) d.
                if cd_primary_key cd \<or> cd_unique cd then AList.update col_name [] d else d)
          cols [])"

definition delete_rows ::
  "'f float_ops \<Rightarrow> string \<Rightarrow> 'f where_clause \<Rightarrow> 'f engine \<Rightarrow> (exn + nat) \<times> 'f engine" where
  "delete_rows F table_name wc st =
     (case map_of (tables st) table_name of
        None \<Rightarrow> (Inl (no_table table_name), st)
      | Some tbl \<Rightarrow>
          (case matching_ordinals F wc (List.enumerate 0 (rows tbl)) of
             Inl e \<Rightarrow> (Inl e, st)
           | Inr rows_to_delete \<Rightarrow>
               (case delete_loop F table_name (rev rows_to_delete)
                       (rows tbl, map_of (indexes st) table_name) of
                  (Some e, ts) \<Rightarrow> (Inl e, write_back table_name tbl ts st)
                | (None, ts) \<Rightarrow>
                    (case rebuild_indexes F (columns tbl) (fst ts) of
                       (rs, ti) \<Rightarrow>
                         (Inr (length rows_to_delete),
                          save_tables (write_back table_name tbl (rs, Some ti) st))))))"

record schema =
  sc_columns :: "(string \<times> col_def) list"
  sc_primary_key :: "string option"
  sc_unique_keys :: "string list"
  sc_row_count :: nat

definition get_table_schema :: "string \<Rightarrow> 'f engine \<Rightarrow> exn + schema" where
  "get_table_schema table_name st =
     (case map_of (tables st) table_name of
        None \<Rightarrow> Inl (no_table table_name)
      | Some tbl \<Rightarrow>
          Inr \<lparr>sc_columns = columns tbl, sc_primary_key = primary_key tbl,
               sc_unique_keys = unique_keys tbl, sc_row_count = length (rows tbl)\<rparr>)"

definition list_tables :: "'f engine \<Rightarrow> string list" where
  "list_tables st = map fst (tables st)"

section \<open>Regular expressions\<close>

text \<open>
  The patterns of the parser, matched the way Python's \<open>re.match\<close> matches them: from
  the start of the text, by backtracking, a greedy repetition trying the longest run
  first and a lazy one the shortest, an optional group tried before it is skipped.  The
  first way that succeeds decides the groups; the text need not be used up.  All patterns
  are matched with \<open>IGNORECASE\<close>, and \<open>.\<close> matches every character (\<open>DOTALL\<close>).
\<close>

datatype cls = Space | Word | Any

datatype rx =
    Lit char
  | One cls
  | Star cls
  | StarLazy cls
  | Open nat
  | Close nat
  | Opt "rx list"
  | Eos

fun in_cls :: "cls \<Rightarrow> char \<Rightarrow> bool" where
  "in_cls Space c = is_space c"
| "in_cls Word c = is_word c"
| "in_cls Any c = True"

text \<open>
  The state of a match: for each group that was opened, the text that was left at that
  point; for each group that was closed, the text it captured.
\<close>

type_synonym caps = "(nat \<times> string) list \<times> (nat \<times> string) list"

definition open_group :: "nat \<Rightarrow> string \<Rightarrow> caps \<Rightarrow> caps" where
  "open_group n s c = (AList.update n s (fst c), snd c)"

definition close_group :: "nat \<Rightarrow> string \<Rightarrow> caps \<Rightarrow> caps" where
  "close_group n s c =
     (case map_of (fst c) n of
        None \<Rightarrow> c
      | Some s0 \<Rightarrow> (fst c, AList.update n (take (length s0 - length s) s0) (snd c)))"

function rmatch :: "rx list \<Rightarrow> string \<Rightarrow> caps \<Rightarrow> (string \<times> caps) option" where
  "rmatch [] s c = Some (s, c)"
| "rmatch (Lit x # r) s c =
     (case s of
        [] \<Rightarrow> None
      | y # ys \<Rightarrow> if upper_char y = upper_char x then rmatch r ys c else None)"
| "rmatch (One k # r) s c =
     (case s of
        [] \<Rightarrow> None
      | y # ys \<Rightarrow> if in_cls k y then rmatch r ys c else None)"
| "rmatch (Star k # r) s c =
     (case s of
        [] \<Rightarrow> rmatch r s c
      | y # ys \<Rightarrow>
          if in_cls k y then
            (case rmatch (Star k # r) ys c of
               Some res \<Rightarrow> Some res
             | None \<Rightarrow> rmatch r s c)
          else rmatch r s c)"
| "rmatch (StarLazy k # r) s c =
     (case rmatch r s c of
        Some res \<Rightarrow> Some res
      | None \<Rightarrow>
          (case s of
             [] \<Rightarrow> None
           | y # ys \<Rightarrow> if in_cls k y then rmatch (StarLazy k # r) ys c else None))"
| "rmatch (Open n # r) s c = rmatch r s (open_group n s c)"
| "rmatch (Close n # r) s c = rmatch r s (close_group n s c)"
| "rmatch (Opt inner # r) s c =
     (case rmatch (inner @ r) s c of
        Some res \<Rightarrow> Some res
      | None \<Rightarrow> rmatch r s c)"
| "rmatch (Eos # r) s c = (if s = [] \<or> s = [CHR 0x0A] then rmatch r s c else None)"
  by pat_completeness auto
termination
  by (relation "inv_image (less_than <*lex*> less_than)
                  (\<lambda>(r, s, c). (length s, size_list size r))") auto

definition re_match :: "rx list \<Rightarrow> string \<Rightarrow> (nat \<times> string) list option" where
  "re_match pat s = map_option (\<lambda>(rest, c). snd c) (rmatch pat s ([], []))"

definition group :: "(nat \<times> string) list \<Rightarrow> nat \<Rightarrow> string option" where
  "group m n = map_of m n"

definition literal :: "string \<Rightarrow> rx list" where
  "literal s = map Lit s"

definition spaces1 :: "rx list" where
  "spaces1 = [One Space, Star Space]"

definition grp :: "nat \<Rightarrow> rx list \<Rightarrow> rx list" where
  "grp n r = Open n # r @ [Close n]"

text \<open>
  \<open>re.split\<close>: the pieces of the text between the successive leftmost matches of the
  pattern.  The one pattern split on cannot match the empty text; a match that used no
  character is passed over.
\<close>

function re_split_from :: "rx list \<Rightarrow> string \<Rightarrow> string \<Rightarrow> string list" where
  "re_split_from pat cur s =
     (case s of
        [] \<Rightarrow> [rev cur]
      | y # ys \<Rightarrow>
          (case rmatch pat s ([], []) of
             None \<Rightarrow> re_split_from pat (y # cur) ys
           | Some (rest, c) \<Rightarrow>
               if length rest < length s then rev cur # re_split_from pat [] rest
               else re_split_from pat (y # cur) ys))"
  by pat_completeness auto
termination
  by (relation "measure (\<lambda>(pat, cur, s). length s)") auto

definition re_split :: "rx list \<Rightarrow> string \<Rightarrow> string list" where
  "re_split pat s = re_split_from pat [] s"

section \<open>Text helpers of the parser\<close>

fun contains :: "string \<Rightarrow> string \<Rightarrow> bool" where
  "contains [] sub = (sub = [])"
| "contains (c # cs) sub = (startswith (c # cs) sub \<or> contains cs sub)"

text \<open>\<open>s.split(sub, 1)\<close> where \<open>sub\<close> occurs in \<open>s\<close>: the text before and after the
  first occurrence.\<close>

fun split_first :: "string \<Rightarrow> string \<Rightarrow> string \<Rightarrow> (string \<times> string) option" where
  "split_first sub seen [] = (if sub = [] then Some (rev seen, []) else None)"
| "split_first sub seen (c # cs) =
     (if startswith (c # cs) sub then Some (rev seen, drop (length sub) (c # cs))
      else split_first sub (c # seen) cs)"

text \<open>\<open>s.split()\<close>: the maximal runs of non-whitespace characters.\<close>

function words :: "string \<Rightarrow> string list" where
  "words s =
     (case dropWhile is_space s of
        [] \<Rightarrow> []
      | c # cs \<Rightarrow> takeWhile (\<lambda>x. \<not> is_space x) (c # cs)
                 # words (dropWhile (\<lambda>x. \<not> is_space x) cs))"
  by pat_completeness auto
termination
proof (relation "measure length", goal_cases)
  case 1
  show ?case by simp
next
  case (2 s c cs)
  have "length (dropWhile (\<lambda>x. \<not> is_space x) cs) \<le> length cs"
    by (rule length_dropWhile_le)
  moreover have "length (dropWhile is_space s) \<le> length s"
    by (rule length_dropWhile_le)
  ultimately show ?case using 2 by simp
qed

declare words.simps [simp del]

fun join :: "string \<Rightarrow> string list \<Rightarrow> string" where
  "join sep [] = []"
| "join sep [x] = x"
| "join sep (x # y # ys) = x @ sep @ join sep (y # ys)"

definition rstrip_semicolons :: "string \<Rightarrow> string" where
  "rstrip_semicolons s = rev (dropWhile (\<lambda>c. c = CHR '';'') (rev s))"

section \<open>Query parser\<close>

datatype 'f plan =
    CreateTable string "(string \<times> col_def) list"
  | Insert string "string list option" "'f pyval list"
  | Select string "string list" "'f where_clause option"
  | SelectJoin string string "string \<times> string" "string list" "'f where_clause option"
  | Update string "(string \<times> 'f pyval) list" "'f where_clause option"
  | Delete string "'f where_clause"
  | ShowTables
  | Describe string

text \<open>
  The fields of a plan are the keys of the dictionary the parser returns; an optional
  field is \<open>None\<close> when the dictionary has no such key (\<open>columns\<close> of an INSERT,
  \<open>where\<close>).  A projection is the list of names, \<open>[''*'']\<close> for the star.
\<close>

fun split_by_comma_loop ::
  "string \<Rightarrow> string list \<Rightarrow> string \<Rightarrow> bool \<Rightarrow> char option \<Rightarrow> int \<Rightarrow> string list" where
  "split_by_comma_loop [] parts current in_quotes quote_char paren_depth =
     (if strip current \<noteq> [] then parts @ [strip current] else parts)"
| "split_by_comma_loop (char # rest) parts current in_quotes quote_char paren_depth =
     (if (char = CHR 0x22 \<or> char = CHR 0x27) \<and> \<not> in_quotes
      then split_by_comma_loop rest parts (current @ [char]) True (Some char) paren_depth
      else if Some char = quote_char \<and> in_quotes
      then split_by_comma_loop rest parts (current @ [char]) False None paren_depth
      else if char = CHR ''('' \<and> \<not> in_quotes
      then split_by_comma_loop rest parts (current @ [char]) in_quotes quote_char
             (paren_depth + 1)
      else if char = CHR '')'' \<and> \<not> in_quotes
      then split_by_comma_loop rest parts (current @ [char]) in_quotes quote_char
             (paren_depth - 1)
      else if char = CHR '','' \<and> \<not> in_quotes \<and> paren_depth = 0
      then split_by_comma_loop rest (parts @ [strip current]) [] in_quotes quote_char
             paren_depth
      else split_by_comma_loop rest parts (current @ [char]) in_quotes quote_char
             paren_depth)"

definition split_by_comma :: "string \<Rightarrow> string list" where
  "split_by_comma text = split_by_comma_loop text [] [] False None 0"

definition parse_value :: "'f float_ops \<Rightarrow> string \<Rightarrow> 'f pyval" where
  "parse_value F value_str0 =
     (let value_str = strip value_str0 in
      if upper value_str = ''NULL'' then VNone
      else if (startswith value_str [CHR 0x27] \<and> endswith value_str [CHR 0x27])
              \<or> (startswith value_str [CHR 0x22] \<and> endswith value_str [CHR 0x22])
      then VStr (butlast (tl value_str))
      else if upper value_str = ''TRUE'' \<or> upper value_str = ''FALSE''
      then VBool (upper value_str = ''TRUE'')
      else if CHR ''.'' \<in> set value_str then
        (case float_of_str F value_str of
           Some f \<Rightarrow> VFloat f
         | None \<Rightarrow> VStr value_str)
      else
        (case int_of_str value_str of
           Some i \<Rightarrow> VInt i
         | None \<Rightarrow> VStr value_str))"

definition parse_values :: "'f float_ops \<Rightarrow> string \<Rightarrow> 'f pyval list" where
  "parse_values F values_str = map (\<lambda>part. parse_value F (strip part)) (split_by_comma values_str)"

definition where_ops :: "string list" where
  "where_ops = [''>='', ''<='', ''!='', ''='', ''>'', ''<'']"

definition pat_and :: "rx list" where
  "pat_and = spaces1 @ literal ''AND'' @ spaces1"

fun parse_condition ::
  "'f float_ops \<Rightarrow> string \<Rightarrow> string list \<Rightarrow> 'f where_clause \<Rightarrow> 'f where_clause" where
  "parse_condition F part [] conditions = conditions"
| "parse_condition F part (opr # oprs) conditions =
     (if contains part opr then
        (case split_first opr [] part of
           None \<Rightarrow> conditions
         | Some (col, value_str) \<Rightarrow>
             let col_name = strip col; v = parse_value F (strip value_str) in
             if opr = ''='' then AList.update col_name (Plain v) conditions
             else AList.update col_name (Ops [(opr, v)]) conditions)
      else parse_condition F part oprs conditions)"

definition parse_where_clause :: "'f float_ops \<Rightarrow> string \<Rightarrow> 'f where_clause" where
  "parse_where_clause F where_str =
     fold (\<lambda>part conditions. parse_condition F (strip part) where_ops conditions)
       (re_split pat_and where_str) []"

fun parse_assignments ::
  "'f float_ops \<Rightarrow> string list \<Rightarrow> (string \<times> 'f pyval) list \<Rightarrow> exn + (string \<times> 'f pyval) list"
  where
  "parse_assignments F [] updates = Inr updates"
| "parse_assignments F (a # rest) updates =
     (let assignment = strip a in
      if \<not> contains assignment ''=''
      then Inl (ValueError (''Invalid assignment: '' @ assignment))
      else (case split_first ''='' [] assignment of
              None \<Rightarrow> Inl (ValueError (''Invalid assignment: '' @ assignment))
            | Some (col, value_str) \<Rightarrow>
                parse_assignments F rest
                  (AList.update (strip col) (parse_value F (strip value_str)) updates)))"

definition parse_set_clause ::
  "'f float_ops \<Rightarrow> string \<Rightarrow> exn + (string \<times> 'f pyval) list" where
  "parse_set_clause F set_str = parse_assignments F (split_by_comma set_str) []"

definition parse_join_condition :: "string \<Rightarrow> exn + string \<times> string" where
  "parse_join_condition condition_str0 =
     (let condition_str = strip condition_str0 in
      if \<not> contains condition_str ''='' then Inl (ValueError ''Invalid JOIN condition'')
      else (case split_first ''='' [] condition_str of
              None \<Rightarrow> Inl (ValueError ''Invalid JOIN condition'')
            | Some (l, r) \<Rightarrow> Inr (strip l, strip r)))"

fun parse_column_defs ::
  "string list \<Rightarrow> (string \<times> col_def) list \<Rightarrow> exn + (string \<times> col_def) list" where
  "parse_column_defs [] cols = Inr cols"
| "parse_column_defs (d # rest) cols =
     (let col_def = strip d; parts = words col_def in
      if length parts < 2 then Inl (ValueError (''Invalid column definition: '' @ col_def))
      else
        let col_name = parts ! 0;
            col_type = parts ! 1;
            remaining = upper (join '' '' (drop 2 parts));
            pk = contains remaining ''PRIMARY KEY'';
            column_info =
              \<lparr>cd_type = col_type,
               cd_not_null = (pk \<or> contains remaining ''NOT NULL''),
               cd_primary_key = pk,
               cd_unique = (contains remaining ''UNIQUE'' \<and> \<not> pk)\<rparr>
        in parse_column_defs rest (AList.update col_name column_info cols))"

definition parse_column_definitions :: "string \<Rightarrow> exn + (string \<times> col_def) list" where
  "parse_column_definitions columns_str = parse_column_defs (split_by_comma columns_str) []"

definition word1 :: "rx list" where
  "word1 = [One Word, Star Word]"

definition pat_create_table :: "rx list" where
  "pat_create_table =
     literal ''CREATE'' @ spaces1 @ literal ''TABLE'' @ spaces1 @ grp 1 word1
     @ [Star Space, Lit CHR ''(''] @ grp 2 [Star Any] @ [Lit CHR '')'']"

definition pat_insert1 :: "rx list" where
  "pat_insert1 =
     literal ''INSERT'' @ spaces1 @ literal ''INTO'' @ spaces1 @ grp 1 word1 @ spaces1
     @ literal ''VALUES'' @ [Star Space, Lit CHR ''(''] @ grp 2 [Star Any] @ [Lit CHR '')'']"

definition pat_insert2 :: "rx list" where
  "pat_insert2 =
     literal ''INSERT'' @ spaces1 @ literal ''INTO'' @ spaces1 @ grp 1 word1
     @ [Star Space, Lit CHR ''(''] @ grp 2 [StarLazy Any] @ [Lit CHR '')''] @ spaces1
     @ literal ''VALUES'' @ [Star Space, Lit CHR ''(''] @ grp 3 [Star Any] @ [Lit CHR '')'']"

definition opt_where :: "nat \<Rightarrow> rx" where
  "opt_where n = Opt (spaces1 @ literal ''WHERE'' @ spaces1 @ grp n [Star Any])"

definition pat_select :: "rx list" where
  "pat_select =
     literal ''SELECT'' @ spaces1 @ grp 1 [StarLazy Any] @ spaces1 @ literal ''FROM'' @ spaces1
     @ grp 2 word1 @ [opt_where 3]"

definition pat_select_join :: "rx list" where
  "pat_select_join =
     literal ''SELECT'' @ spaces1 @ grp 1 [StarLazy Any] @ spaces1 @ literal ''FROM'' @ spaces1
     @ grp 2 word1 @ spaces1 @ literal ''JOIN'' @ spaces1 @ grp 3 word1 @ spaces1
     @ literal ''ON'' @ spaces1 @ grp 4 [StarLazy Any] @ [opt_where 5, Eos]"

definition pat_update :: "rx list" where
  "pat_update =
     literal ''UPDATE'' @ spaces1 @ grp 1 word1 @ spaces1 @ literal ''SET'' @ spaces1
     @ grp 2 [StarLazy Any] @ [opt_where 3]"

definition pat_delete :: "rx list" where
  "pat_delete =
     literal ''DELETE'' @ spaces1 @ literal ''FROM'' @ spaces1 @ grp 1 word1 @ [opt_where 2]"

definition pat_describe :: "rx list" where
  "pat_describe = literal ''DESCRIBE'' @ spaces1 @ grp 1 word1"

definition the_group :: "(nat \<times> string) list \<Rightarrow> nat \<Rightarrow> string" where
  "the_group m n = (case group m n of None \<Rightarrow> [] | Some g \<Rightarrow> g)"

text \<open>
  \<open>the_group\<close> reads a group that takes part in every match of its pattern.
  \<open>if where_str:\<close> holds for a WHERE group that took part and is not empty.
\<close>

definition where_of :: "'f float_ops \<Rightarrow> string option \<Rightarrow> 'f where_clause option" where
  "where_of F where_str =
     (case where_str of
        None \<Rightarrow> None
      | Some w \<Rightarrow> if w = [] then None else Some (parse_where_clause F w))"

definition parse_projection :: "string \<Rightarrow> string list" where
  "parse_projection columns_str =
     (if columns_str = ''*'' then [''*''] else map strip (split_char CHR '','' columns_str))"

definition parse_create_table :: "string \<Rightarrow> exn + 'f plan" where
  "parse_create_table query =
     (case re_match pat_create_table query of
        None \<Rightarrow> Inl (ValueError ''Invalid CREATE TABLE syntax'')
      | Some m \<Rightarrow>
          (case parse_column_definitions (the_group m 2) of
             Inl e \<Rightarrow> Inl e
           | Inr cols \<Rightarrow> Inr (CreateTable (the_group m 1) cols)))"

definition parse_insert :: "'f float_ops \<Rightarrow> string \<Rightarrow> exn + 'f plan" where
  "parse_insert F query =
     (case re_match pat_insert1 query of
        Some m \<Rightarrow> Inr (Insert (the_group m 1) None (parse_values F (the_group m 2)))
      | None \<Rightarrow>
          (case re_match pat_insert2 query of
             Some m \<Rightarrow>
               Inr (Insert (the_group m 1)
                      (Some (map strip (split_char CHR '','' (the_group m 2))))
                      (parse_values F (the_group m 3)))
           | None \<Rightarrow> Inl (ValueError ''Invalid INSERT syntax'')))"

definition parse_select_with_join :: "'f float_ops \<Rightarrow> string \<Rightarrow> exn + 'f plan" where
  "parse_select_with_join F query =
     (case re_match pat_select_join query of
        None \<Rightarrow> Inl (ValueError ''Invalid SELECT with JOIN syntax'')
      | Some m \<Rightarrow>
          (case parse_join_condition (strip (the_group m 4)) of
             Inl e \<Rightarrow> Inl e
           | Inr jc \<Rightarrow>
               Inr (SelectJoin (the_group m 2) (the_group m 3) jc
                      (parse_projection (strip (the_group m 1)))
                      (where_of F (group m 5)))))"

definition parse_select :: "'f float_ops \<Rightarrow> string \<Rightarrow> exn + 'f plan" where
  "parse_select F query =
     (if contains (upper query) '' JOIN '' then parse_select_with_join F query
      else (case re_match pat_select query of
              None \<Rightarrow> Inl (ValueError ''Invalid SELECT syntax'')
            | Some m \<Rightarrow>
                Inr (Select (the_group m 2) (parse_projection (strip (the_group m 1)))
                       (where_of F (group m 3)))))"

definition parse_update :: "'f float_ops \<Rightarrow> string \<Rightarrow> exn + 'f plan" where
  "parse_update F query =
     (case re_match pat_update query of
        None \<Rightarrow> Inl (ValueError ''Invalid UPDATE syntax'')
      | Some m \<Rightarrow>
          (case parse_set_clause F (the_group m 2) of
             Inl e \<Rightarrow> Inl e
           | Inr updates \<Rightarrow> Inr (Update (the_group m 1) updates (where_of F (group m 3)))))"

definition parse_delete :: "'f float_ops \<Rightarrow> string \<Rightarrow> exn + 'f plan" where
  "parse_delete F query =
     (case re_match pat_delete query of
        None \<Rightarrow> Inl (ValueError ''Invalid DELETE syntax'')
      | Some m \<Rightarrow>
          (case where_of F (group m 2) of
             Some w \<Rightarrow> Inr (Delete (the_group m 1) w)
           | None \<Rightarrow> Inl (ValueError ''DELETE without WHERE clause not allowed for safety'')))"

definition parse_show :: "string \<Rightarrow> exn + 'f plan" where
  "parse_show query =
     (if upper query = ''SHOW TABLES'' then Inr ShowTables
      else Inl (ValueError ''Invalid SHOW syntax''))"

definition parse_describe :: "string \<Rightarrow> exn + 'f plan" where
  "parse_describe query =
     (case re_match pat_describe query of
        None \<Rightarrow> Inl (ValueError ''Invalid DESCRIBE syntax'')
      | Some m \<Rightarrow> Inr (Describe (the_group m 1)))"

definition parse :: "'f float_ops \<Rightarrow> string \<Rightarrow> exn + 'f plan" where
  "parse F query0 =
     (let query = rstrip_semicolons (strip query0) in
      case words query of
        [] \<Rightarrow> Inl (IndexError ''list index out of range'')
      | w # _ \<Rightarrow>
          let first_word = upper w in
          if first_word = ''CREATE'' then parse_create_table query
          else if first_word = ''INSERT'' then parse_insert F query
          else if first_word = ''SELECT'' then parse_select F query
          else if first_word = ''UPDATE'' then parse_update F query
          else if first_word = ''DELETE'' then parse_delete F query
          else if first_word = ''SHOW'' then parse_show query
          else if first_word = ''DESCRIBE'' then parse_describe query
          else Inl (ValueError (''Unsupported query type: '' @ first_word)))"

section \<open>Query executor\<close>

text \<open>
  A result is the dictionary \<open>execute\<close> returns.  Every method of the executor catches
  \<open>Exception\<close> and turns it into the failure dictionary; the engine keeps what the
  storage operation had written by then.
\<close>

datatype 'f rval =
    RBool bool
  | RStr string
  | RInt int
  | RRows "'f row list"
  | RNames "string list"
  | RColumns "(string \<times> string option) list list"

type_synonym 'f result = "(string \<times> 'f rval) list"

definition failure :: "exn \<Rightarrow> 'f result" where
  "failure e = [(''success'', RBool False), (''error'', RStr (str_exn e))]"

definition execute_create_table ::
  "string \<Rightarrow> (string \<times> col_def) list \<Rightarrow> 'f engine \<Rightarrow> 'f result \<times> 'f engine" where
  "execute_create_table table_name cols st =
     (case create_table table_name cols st of
        (Inl e, st') \<Rightarrow> (failure e, st')
      | (Inr _, st') \<Rightarrow>
          ([(''success'', RBool True),
            (''message'', RStr (''Table '' @ quoted table_name @ '' created successfully''))],
           st'))"

definition dict_of :: "('k \<times> 'v) list \<Rightarrow> ('k \<times> 'v) list" where
  "dict_of kvs = fold (\<lambda>(k, v) d. AList.update k v d) kvs []"

definition build_row_data ::
  "string list \<Rightarrow> string list option \<Rightarrow> 'f pyval list \<Rightarrow> exn + 'f row" where
  "build_row_data cols specified vals =
     (case specified of
        Some specified_columns \<Rightarrow>
          if length specified_columns \<noteq> length vals
          then Inl (ValueError ''Column count doesn't match value count'')
          else Inr (dict_of (zip specified_columns vals))
      | None \<Rightarrow>
          if length vals \<noteq> length cols
          then Inl (ValueError (''Expected '' @ str_of_nat (length cols) @ '' values, got ''
                                @ str_of_nat (length vals)))
          else Inr (dict_of (zip cols vals)))"

definition execute_insert ::
  "'f float_ops \<Rightarrow> string \<Rightarrow> string list option \<Rightarrow> 'f pyval list \<Rightarrow> 'f engine
     \<Rightarrow> 'f result \<times> 'f engine" where
  "execute_insert F table_name specified vals st =
     (case get_table_schema table_name st of
        Inl e \<Rightarrow> (failure e, st)
      | Inr sch \<Rightarrow>
          (case build_row_data (map fst (sc_columns sch)) specified vals of
             Inl e \<Rightarrow> (failure e, st)
           | Inr row_data \<Rightarrow>
               (case insert_row F table_name row_data st of
                  (Inl e, st') \<Rightarrow> (failure e, st')
                | (Inr row_id, st') \<Rightarrow>
                    ([(''success'', RBool True),
                      (''message'', RStr (''Row inserted with ID '' @ str_of_nat row_id)),
                      (''row_id'', RInt (int row_id))],
                     st'))))"

definition clean_row :: "'f row \<Rightarrow> 'f row" where
  "clean_row row = filter (\<lambda>(k, v). \<not> startswith k ''_'') row"

definition project_row :: "string list \<Rightarrow> 'f row \<Rightarrow> 'f row" where
  "project_row cols row =
     fold (\<lambda>col projected_row.
             case map_of row col of
               Some v \<Rightarrow> AList.update col v projected_row
             | None \<Rightarrow> projected_row) cols []"

definition rows_result :: "'f row list \<Rightarrow> 'f result" where
  "rows_result result_rows =
     [(''success'', RBool True), (''rows'', RRows result_rows),
      (''count'', RInt (int (length result_rows)))]"

definition execute_select ::
  "'f float_ops \<Rightarrow> string \<Rightarrow> string list \<Rightarrow> 'f where_clause option \<Rightarrow> 'f engine
     \<Rightarrow> 'f result" where
  "execute_select F table_name cols wc st =
     (case select_rows F table_name wc st of
        Inl e \<Rightarrow> failure e
      | Inr rs \<Rightarrow>
          rows_result (if cols = [''*''] then map clean_row rs
                       else map (project_row cols) rs))"

definition qualify :: "string \<Rightarrow> string \<Rightarrow> string \<times> string" where
  "qualify default_table col =
     (if CHR ''.'' \<in> set col then
        (case split_first ''.'' [] col of
           Some (t, c) \<Rightarrow> (t, c)
         | None \<Rightarrow> (default_table, col))
      else (default_table, col))"

definition evaluate_join_condition ::
  "'f float_ops \<Rightarrow> 'f row \<Rightarrow> 'f row \<Rightarrow> string \<times> string \<Rightarrow> string \<Rightarrow> string \<Rightarrow> bool" where
  "evaluate_join_condition F row1 row2 condition table1 table2 =
     (case qualify table1 (fst condition) of (left_table, left_col) \<Rightarrow>
      case qualify table2 (snd condition) of (right_table, right_col) \<Rightarrow>
        let left_val = (if left_table = table1 then row_get row1 left_col
                        else row_get row2 left_col);
            right_val = (if right_table = table2 then row_get row2 right_col
                         else row_get row1 right_col)
        in py_eq F left_val right_val)"

definition add_prefixed :: "string \<Rightarrow> 'f row \<Rightarrow> 'f row \<Rightarrow> 'f row" where
  "add_prefixed tbl row joined_row =
     fold (\<lambda>(col, v) d. if \<not> startswith col ''_'' then AList.update (tbl @ ''.'' @ col) v d
                         else d) row joined_row"

definition join_rows ::
  "'f float_ops \<Rightarrow> string \<Rightarrow> string \<Rightarrow> string \<times> string \<Rightarrow> 'f row list \<Rightarrow> 'f row list
     \<Rightarrow> 'f row list" where
  "join_rows F table1 table2 condition rows1 rows2 =
     concat (map (\<lambda>row1.
       concat (map (\<lambda>row2.
         if evaluate_join_condition F row1 row2 condition table1 table2
         then [add_prefixed table2 row2 (add_prefixed table1 row1 [])]
         else []) rows2)) rows1)"

fun filter_rows_join ::
  "'f float_ops \<Rightarrow> 'f where_clause \<Rightarrow> 'f row list \<Rightarrow> exn + 'f row list" where
  "filter_rows_join F wc [] = Inr []"
| "filter_rows_join F wc (row # rest) =
     (case matches_where_clause_join F row wc of
        Inl e \<Rightarrow> Inl e
      | Inr b \<Rightarrow>
          (case filter_rows_join F wc rest of
             Inl e \<Rightarrow> Inl e
           | Inr rs \<Rightarrow> Inr (if b then row # rs else rs)))"

definition project_join_row :: "string list \<Rightarrow> 'f row \<Rightarrow> 'f row" where
  "project_join_row cols row =
     fold (\<lambda>col0 projected_row.
             let col = strip col0 in
             case map_of row col of
               Some v \<Rightarrow> AList.update col v projected_row
             | None \<Rightarrow>
                 (case find (\<lambda>(row_col, _). endswith row_col (''.'' @ col)) row of
                    Some (_, v) \<Rightarrow> AList.update col v projected_row
                  | None \<Rightarrow> projected_row)) cols []"

definition execute_select_join ::
  "'f float_ops \<Rightarrow> string \<Rightarrow> string \<Rightarrow> string \<times> string \<Rightarrow> string list
     \<Rightarrow> 'f where_clause option \<Rightarrow> 'f engine \<Rightarrow> 'f result" where
  "execute_select_join F table1 table2 condition cols wc st =
     (case select_rows F table1 None st of
        Inl e \<Rightarrow> failure e
      | Inr rows1 \<Rightarrow>
          (case select_rows F table2 None st of
             Inl e \<Rightarrow> failure e
           | Inr rows2 \<Rightarrow>
               let joined_rows = join_rows F table1 table2 condition rows1 rows2 in
               (case (case wc of
                        None \<Rightarrow> Inr joined_rows
                      | Some w \<Rightarrow> if w = [] then Inr joined_rows
                                  else filter_rows_join F w joined_rows) of
                  Inl e \<Rightarrow> failure e
                | Inr filtered \<Rightarrow>
                    rows_result (if cols = [''*''] then filtered
                                 else map (project_join_row cols) filtered))))"

definition execute_update ::
  "'f float_ops \<Rightarrow> string \<Rightarrow> (string \<times> 'f pyval) list \<Rightarrow> 'f where_clause option
     \<Rightarrow> 'f engine \<Rightarrow> 'f result \<times> 'f engine" where
  "execute_update F table_name updates wc st =
     (case wc of
        None \<Rightarrow>
          (failure (ValueError ''UPDATE without WHERE clause not allowed for safety''), st)
      | Some w \<Rightarrow>
          if w = []
          then (failure (ValueError ''UPDATE without WHERE clause not allowed for safety''), st)
          else (case update_rows F table_name updates w st of
                  (Inl e, st') \<Rightarrow> (failure e, st')
                | (Inr updated_count, st') \<Rightarrow>
                    ([(''success'', RBool True),
                      (''message'', RStr (''Updated '' @ str_of_nat updated_count
                                           @ '' row(s)'')),
                      (''updated_count'', RInt (int updated_count))],
                     st')))"

definition execute_delete ::
  "'f float_ops \<Rightarrow> string \<Rightarrow> 'f where_clause \<Rightarrow> 'f engine \<Rightarrow> 'f result \<times> 'f engine" where
  "execute_delete F table_name wc st =
     (case delete_rows F table_name wc st of
        (Inl e, st') \<Rightarrow> (failure e, st')
      | (Inr deleted_count, st') \<Rightarrow>
          ([(''success'', RBool True),
            (''message'', RStr (''Deleted '' @ str_of_nat deleted_count @ '' row(s)'')),
            (''deleted_count'', RInt (int deleted_count))],
           st'))"

definition execute_show_tables :: "'f engine \<Rightarrow> 'f result" where
  "execute_show_tables st =
     [(''success'', RBool True), (''tables'', RNames (list_tables st)),
      (''count'', RInt (int (length (list_tables st))))]"

definition constraints_of :: "col_def \<Rightarrow> string option" where
  "constraints_of cd =
     (let constraints =
            (if cd_primary_key cd then [''PRIMARY KEY''] else [])
            @ (if cd_unique cd \<and> \<not> cd_primary_key cd then [''UNIQUE''] else [])
            @ (if cd_not_null cd then [''NOT NULL''] else [])
      in if constraints = [] then None else Some (join '', '' constraints))"

definition execute_describe :: "string \<Rightarrow> 'f engine \<Rightarrow> 'f result" where
  "execute_describe table_name st =
     (case get_table_schema table_name st of
        Inl e \<Rightarrow> failure e
      | Inr sch \<Rightarrow>
          [(''success'', RBool True),
           (''table'', RStr table_name),
           (''columns'',
            RColumns (map (\<lambda>(col_name, cd).
                             [(''column'', Some col_name), (''type'', Some (cd_type cd)),
                              (''constraints'', constraints_of cd)]) (sc_columns sch))),
           (''row_count'', RInt (int (sc_row_count sch)))])"

fun execute_plan :: "'f float_ops \<Rightarrow> 'f plan \<Rightarrow> 'f engine \<Rightarrow> 'f result \<times> 'f engine" where
  "execute_plan F (CreateTable t cols) st = execute_create_table t cols st"
| "execute_plan F (Insert t specified vals) st = execute_insert F t specified vals st"
| "execute_plan F (Select t cols wc) st = (execute_select F t cols wc st, st)"
| "execute_plan F (SelectJoin t1 t2 condition cols wc) st =
     (execute_select_join F t1 t2 condition cols wc st, st)"
| "execute_plan F (Update t updates wc) st = execute_update F t updates wc st"
| "execute_plan F (Delete t wc) st = execute_delete F t wc st"
| "execute_plan F ShowTables st = (execute_show_tables st, st)"
| "execute_plan F (Describe t) st = (execute_describe t st, st)"

definition execute :: "'f float_ops \<Rightarrow> string \<Rightarrow> 'f engine \<Rightarrow> 'f result \<times> 'f engine" where
  "execute F query st =
     (case parse F query of
        Inl e \<Rightarrow> (failure e, st)
      | Inr pl \<Rightarrow> execute_plan F pl st)"

definition empty_engine :: "'f engine" where
  "empty_engine = \<lparr>tables = [], indexes = [], disk_tables = [], disk_indexes = []\<rparr>"

text \<open>Running statements one after the other, each on the engine the one before left.\<close>

fun run :: "'f float_ops \<Rightarrow> string list \<Rightarrow> 'f engine \<Rightarrow> 'f engine" where
  "run F [] st = st"
| "run F (q # qs) st = run F qs (snd (execute F q st))"

section \<open>Notions used by the properties\<close>

text \<open>
  An instance of the float operations for evaluating the program at inputs where no
  floating-point operation is called.
\<close>

definition no_floats :: "unit float_ops" where
  "no_floats = \<lparr>float_of_str = (\<lambda>_. None),
                float_of_int = (\<lambda>_. Inl (OverflowError ''int too large to convert to float'')),
                int_of_float = (\<lambda>_. Inr 0),
                str_of_float = (\<lambda>_. ''0.0''),
                float_cmp = (\<lambda>_ _. CEq),
                float_cmp_int = (\<lambda>_ _. CUn)\<rparr>"


text \<open>
  The engine after the first end-to-end scenario of the specification:
  \<open>CREATE TABLE categories (id INT PRIMARY KEY, name VARCHAR(100) NOT NULL)\<close> and
  \<open>INSERT INTO categories VALUES (1, 'Books')\<close>.
\<close>

definition categories_columns :: "(string \<times> col_def) list" where
  "categories_columns =
     [(''id'', \<lparr>cd_type = ''INT'', cd_not_null = True, cd_primary_key = True,
                cd_unique = False\<rparr>),
      (''name'', \<lparr>cd_type = ''VARCHAR(100)'', cd_not_null = True, cd_primary_key = False,
                  cd_unique = False\<rparr>)]"

definition books_row :: "unit row" where
  "books_row = [(''id'', VInt 1), (''name'', VStr ''Books''), (''_row_id'', VInt 0)]"

definition categories_table :: "unit table" where
  "categories_table =
     \<lparr>columns = categories_columns, rows = [books_row], primary_key = Some ''id'',
      unique_keys = []\<rparr>"

definition books_engine :: "unit engine" where
  "books_engine =
     \<lparr>tables = [(''categories'', categories_table)],
      indexes = [(''categories'', [(''id'', [(VInt 1, 0)])])],
      disk_tables = [(''categories'', categories_table)],
      disk_indexes = [(''categories'', [(''id'', [(VInt 1, 0)])])]\<rparr>"

text \<open>
  The shape of a result, in the words of the specification's table of payloads: a failure is
  \<open>{success: false, error: string}\<close>, and a success has the fields of its plan variant.
\<close>

definition success_flag :: "'f result \<Rightarrow> bool option" where
  "success_flag res = (case map_of res ''success'' of Some (RBool b) \<Rightarrow> Some b | _ \<Rightarrow> None)"

definition is_failure :: "'f result \<Rightarrow> bool" where
  "is_failure res =
     (case map_of res ''error'' of
        Some (RStr e) \<Rightarrow> res = [(''success'', RBool False), (''error'', RStr e)]
      | _ \<Rightarrow> False)"

fun payload_shape :: "'f plan \<Rightarrow> 'f result \<Rightarrow> bool" where
  "payload_shape (CreateTable t cols) res =
     (res = [(''success'', RBool True),
             (''message'', RStr (''Table '' @ quoted t @ '' created successfully''))])"
| "payload_shape (Insert t specified vals) res =
     (case map_of res ''row_id'' of
        Some (RInt n) \<Rightarrow>
          0 \<le> n \<and>
          res = [(''success'', RBool True),
                 (''message'', RStr (''Row inserted with ID '' @ str_of_int n)),
                 (''row_id'', RInt n)]
      | _ \<Rightarrow> False)"
| "payload_shape (Select t cols wc) res =
     (case map_of res ''rows'' of
        Some (RRows rs) \<Rightarrow>
          res = [(''success'', RBool True), (''rows'', RRows rs),
                 (''count'', RInt (int (length rs)))]
      | _ \<Rightarrow> False)"
| "payload_shape (SelectJoin t1 t2 condition cols wc) res =
     (case map_of res ''rows'' of
        Some (RRows rs) \<Rightarrow>
          res = [(''success'', RBool True), (''rows'', RRows rs),
                 (''count'', RInt (int (length rs)))]
      | _ \<Rightarrow> False)"
| "payload_shape (Update t updates wc) res =
     (case map_of res ''updated_count'' of
        Some (RInt n) \<Rightarrow>
          0 \<le> n \<and>
          res = [(''success'', RBool True),
                 (''message'', RStr (''Updated '' @ str_of_int n @ '' row(s)'')),
                 (''updated_count'', RInt n)]
      | _ \<Rightarrow> False)"
| "payload_shape (Delete t wc) res =
     (case map_of res ''deleted_count'' of
        Some (RInt n) \<Rightarrow>
          0 \<le> n \<and>
          res = [(''success'', RBool True),
                 (''message'', RStr (''Deleted '' @ str_of_int n @ '' row(s)'')),
                 (''deleted_count'', RInt n)]
      | _ \<Rightarrow> False)"
| "payload_shape ShowTables res =
     (case map_of res ''tables'' of
        Some (RNames ns) \<Rightarrow>
          res = [(''success'', RBool True), (''tables'', RNames ns),
                 (''count'', RInt (int (length ns)))]
      | _ \<Rightarrow> False)"
| "payload_shape (Describe t) res =
     (case (map_of res ''columns'', map_of res ''row_count'') of
        (Some (RColumns cs), Some (RInt n)) \<Rightarrow>
          0 \<le> n \<and>
          list_all (\<lambda>c. map fst c = [''column'', ''type'', ''constraints'']
                         \<and> map_of c ''column'' \<noteq> Some None \<and> map_of c ''type'' \<noteq> Some None) cs \<and>
          res = [(''success'', RBool True), (''table'', RStr t), (''columns'', RColumns cs),
                 (''row_count'', RInt n)]
      | _ \<Rightarrow> False)"

definition shaped :: "'f plan \<Rightarrow> 'f result \<Rightarrow> bool" where
  "shaped pl res =
     ((\<exists>e. res = failure e) \<or> (success_flag res = Some True \<and> payload_shape pl res))"

text \<open>
  The two invariants of the specification, as checks on an engine.  The constrained
  columns of a table are its primary key and its UNIQUE columns.  \<open>unique_ok\<close>: no two
  rows of a table have an equal non-Null value in a constrained column.  \<open>index_exact\<close>:
  the index of every constrained column maps a value to an ordinal exactly when the row at
  that ordinal has the value in the column and the value is not Null.
\<close>

definition constrained_columns :: "'f table \<Rightarrow> string list" where
  "constrained_columns tbl =
     (case primary_key tbl of None \<Rightarrow> [] | Some pk \<Rightarrow> [pk]) @ unique_keys tbl"

fun unique_values :: "'f float_ops \<Rightarrow> 'f pyval list \<Rightarrow> bool" where
  "unique_values F [] = True"
| "unique_values F (v # vs) =
     ((v = VNone \<or> \<not> list_ex (\<lambda>u. py_eq F v u) vs) \<and> unique_values F vs)"

definition unique_ok :: "'f float_ops \<Rightarrow> 'f engine \<Rightarrow> bool" where
  "unique_ok F st =
     list_all (\<lambda>(t, tbl).
        list_all (\<lambda>c. unique_values F (map (\<lambda>row. row_get row c) (rows tbl)))
          (constrained_columns tbl)) (tables st)"

definition index_matches :: "'f float_ops \<Rightarrow> 'f row list \<Rightarrow> string \<Rightarrow> 'f index \<Rightarrow> bool" where
  "index_matches F rs c idx =
     (list_all (\<lambda>(v, i). i < length rs \<and> v \<noteq> VNone \<and> row_get (rs ! i) c = v) idx
      \<and> list_all (\<lambda>(i, row). row_get row c = VNone \<or> idx_get F idx (row_get row c) = Some i)
          (List.enumerate 0 rs))"

definition index_exact :: "'f float_ops \<Rightarrow> 'f engine \<Rightarrow> bool" where
  "index_exact F st =
     list_all (\<lambda>(t, tbl).
        case map_of (indexes st) t of
          None \<Rightarrow> False
        | Some ti \<Rightarrow>
            list_all (\<lambda>c. case map_of ti c of
                             None \<Rightarrow> False
                           | Some idx \<Rightarrow> index_matches F (rows tbl) c idx)
              (constrained_columns tbl)) (tables st)"

text \<open>
  The table \<open>items (id INT PRIMARY KEY, code INT UNIQUE)\<close>: the engine after
  \<open>INSERT INTO items VALUES (1, 0)\<close>, and the engine after a second row \<open>(2, 0)\<close>.
\<close>

definition items_columns :: "(string \<times> col_def) list" where
  "items_columns =
     [(''id'', \<lparr>cd_type = ''INT'', cd_not_null = True, cd_primary_key = True,
                cd_unique = False\<rparr>),
      (''code'', \<lparr>cd_type = ''INT'', cd_not_null = False, cd_primary_key = False,
                  cd_unique = True\<rparr>)]"

definition items_table :: "unit row list \<Rightarrow> unit table" where
  "items_table rs =
     \<lparr>columns = items_columns, rows = rs, primary_key = Some ''id'', unique_keys = [''code'']\<rparr>"

definition items_engine :: "unit row list \<Rightarrow> unit table_indexes \<Rightarrow> unit engine" where
  "items_engine rs ti =
     \<lparr>tables = [(''items'', items_table rs)], indexes = [(''items'', ti)],
      disk_tables = [(''items'', items_table rs)], disk_indexes = [(''items'', ti)]\<rparr>"

definition items_one :: "unit engine" where
  "items_one =
     items_engine [[(''id'', VInt 1), (''code'', VInt 0), (''_row_id'', VInt 0)]]
       [(''id'', [(VInt 1, 0)]), (''code'', [(VInt 0, 0)])]"

definition items_two :: "unit engine" where
  "items_two =
     items_engine [[(''id'', VInt 1), (''code'', VInt 0), (''_row_id'', VInt 0)],
                   [(''id'', VInt 2), (''code'', VInt 0), (''_row_id'', VInt 1)]]
       [(''id'', [(VInt 1, 0), (VInt 2, 1)]), (''code'', [(VInt 0, 1)])]"

text \<open>
  An engine with the table \<open>stock (id INT PRIMARY KEY, qty INT)\<close> and the rows
  \<open>(1, 10)\<close> and \<open>(2, 20)\<close>, as the statements that create them leave it.
\<close>

definition stock_columns :: "(string \<times> col_def) list" where
  "stock_columns =
     [(''id'', \<lparr>cd_type = ''INT'', cd_not_null = True, cd_primary_key = True,
                cd_unique = False\<rparr>),
      (''qty'', \<lparr>cd_type = ''INT'', cd_not_null = False, cd_primary_key = False,
                 cd_unique = False\<rparr>)]"

definition stock_table :: "unit table" where
  "stock_table =
     \<lparr>columns = stock_columns,
      rows = [[(''id'', VInt 1), (''qty'', VInt 10), (''_row_id'', VInt 0)],
              [(''id'', VInt 2), (''qty'', VInt 20), (''_row_id'', VInt 1)]],
      primary_key = Some ''id'', unique_keys = []\<rparr>"

definition stock_engine :: "unit engine" where
  "stock_engine =
     \<lparr>tables = [(''stock'', stock_table)],
      indexes = [(''stock'', [(''id'', [(VInt 1, 0), (VInt 2, 1)])])],
      disk_tables = [(''stock'', stock_table)],
      disk_indexes = [(''stock'', [(''id'', [(VInt 1, 0), (VInt 2, 1)])])]\<rparr>"

text \<open>
  An index covers the rows of a table when it has a key for the value every row carries in
  the column, Null apart.
\<close>

definition index_covers :: "'f float_ops \<Rightarrow> 'f row list \<Rightarrow> string \<Rightarrow> 'f index \<Rightarrow> bool" where
  "index_covers F rs c idx =
     list_all (\<lambda>row. row_get row c = VNone \<or> idx_mem F idx (row_get row c)) rs"

section \<open>Properties\<close>

subsection \<open>Null in predicates\<close>















subsection \<open>Projection\<close>

lemma books_engine_run:
  "run no_floats
     [''CREATE TABLE categories (id INT PRIMARY KEY, name VARCHAR(100) NOT NULL)'',
      ''INSERT INTO categories VALUES (1, 'Books')''] empty_engine = books_engine"
  by code_simp

lemma project_fold_map_of:
  "map_of (fold (\<lambda>col projected_row.
             case map_of row col of
               Some v \<Rightarrow> AList.update col v projected_row
             | None \<Rightarrow> projected_row) cols acc) c
   = (if c \<in> set cols \<and> map_of row c \<noteq> None then map_of row c else map_of acc c)"
  by (induction cols arbitrary: acc) (auto simp: update_conv' split: option.splits)

lemma project_fold_distinct:
  "distinct (map fst acc) \<Longrightarrow>
   distinct (map fst (fold (\<lambda>col projected_row.
             case map_of row col of
               Some v \<Rightarrow> AList.update col v projected_row
             | None \<Rightarrow> projected_row) cols acc))"
  by (induction cols arbitrary: acc) (auto simp: distinct_update split: option.splits)

lemma project_row_map_of:
  "map_of (project_row cols row) c = (if c \<in> set cols then map_of row c else None)"
  by (simp add: project_row_def project_fold_map_of)

lemma project_row_distinct: "distinct (map fst (project_row cols row))"
  by (simp add: project_row_def project_fold_distinct)




lemma select_books:
  "select_rows no_floats ''categories'' None books_engine = Inr [books_row]"
  by (simp add: select_rows_def books_engine_def categories_table_def)

text \<open>
  C8.  A single-table SELECT with an explicit projection list copies a requested name into
  the output row exactly when the stored row has that key, with the stored value; a name the
  row does not have leaves no field.  The names play no part in whether the statement
  fails: it fails exactly when fetching the rows fails, with that error, and otherwise
  returns one projected row per fetched row.
\<close>

theorem explicit_projection:
  "cols \<noteq> [''*''] \<longrightarrow>
     (select_rows F t wc st = Inr rs \<longrightarrow>
        execute_select F t cols wc st = rows_result (map (project_row cols) rs))
     \<and> (select_rows F t wc st = Inl e \<longrightarrow> execute_select F t cols wc st = failure e)
     \<and> map_of (project_row cols row) c = (if c \<in> set cols then map_of row c else None)
     \<and> distinct (map fst (project_row cols row))"
  by (simp add: execute_select_def project_row_map_of project_row_distinct)

theorem explicit_projection_witness:
  "[''name'', ''price''] \<noteq> [''*'']
   \<and> select_rows no_floats ''categories'' None books_engine = Inr [books_row]
   \<and> execute_select no_floats ''categories'' [''name'', ''price''] None books_engine
       = rows_result [[(''name'', VStr ''Books'')]]
   \<and> map_of (project_row [''name'', ''price''] books_row) ''price'' = None
   \<and> map_of (project_row [''name'', ''price''] books_row) ''name'' = Some (VStr ''Books'')"
  using explicit_projection [of "[''name'', ''price'']" no_floats "''categories''" None
      books_engine "[books_row]" undefined books_row "''price''"]
    explicit_projection [of "[''name'', ''price'']" no_floats "''categories''" None
      books_engine "[books_row]" undefined books_row "''name''"]
    select_books
  by (simp add: project_row_def books_row_def)




subsection \<open>The result of execute\<close>

lemma str_of_int_nat: "str_of_int (int n) = str_of_nat n"
  by (simp add: str_of_int_def str_of_nat_def)

lemma shaped_create: "shaped (CreateTable t cols) (fst (execute_create_table t cols st))"
  by (auto simp: shaped_def execute_create_table_def success_flag_def split: prod.splits sum.splits)

lemma shaped_insert: "shaped (Insert t sp vals) (fst (execute_insert F t sp vals st))"
  by (auto simp: shaped_def execute_insert_def success_flag_def str_of_int_nat
      split: prod.splits sum.splits)

lemma shaped_select: "shaped (Select t cols wc) (execute_select F t cols wc st)"
  by (auto simp: shaped_def execute_select_def rows_result_def success_flag_def
      split: prod.splits sum.splits)

lemma shaped_select_join:
  "shaped (SelectJoin t1 t2 cnd cols wc) (execute_select_join F t1 t2 cnd cols wc st)"
  by (auto simp: shaped_def execute_select_join_def rows_result_def success_flag_def Let_def
      split: prod.splits sum.splits option.splits)

lemma shaped_update: "shaped (Update t ups wc) (fst (execute_update F t ups wc st))"
  by (auto simp: shaped_def execute_update_def success_flag_def str_of_int_nat
      split: prod.splits sum.splits option.splits)

lemma shaped_delete: "shaped (Delete t wc) (fst (execute_delete F t wc st))"
  by (auto simp: shaped_def execute_delete_def success_flag_def str_of_int_nat
      split: prod.splits sum.splits option.splits)

lemma shaped_show: "shaped ShowTables (execute_show_tables st)"
  by (auto simp: shaped_def execute_show_tables_def success_flag_def)

lemma shaped_describe: "shaped (Describe t) (execute_describe t st)"
  by (auto simp: shaped_def execute_describe_def success_flag_def list_all_iff
      split: prod.splits sum.splits option.splits)

lemma shaped_plan: "shaped pl (fst (execute_plan F pl st))"
  by (cases pl)
    (simp_all add: shaped_create shaped_insert shaped_select shaped_select_join shaped_update
      shaped_delete shaped_show shaped_describe)

lemma failure_flags: "success_flag (failure e) = Some False" "is_failure (failure e)"
  by (simp_all add: failure_def success_flag_def is_failure_def)

text \<open>
  C5.  For every statement text and every engine, \<open>execute\<close> returns a dictionary with
  a boolean \<open>success\<close>.  When it is false the dictionary is exactly
  \<open>{success: false, error: string}\<close>; when it is true the statement parsed to a plan
  and the dictionary has the shape the specification fixes for that plan variant.  Every
  exception of the parser, the executor and the storage engine is a branch of the model,
  and each of them ends in the failure dictionary.
\<close>

theorem execute_result_shape:
  "success_flag (fst (execute F sql st)) \<noteq> None
   \<and> (success_flag (fst (execute F sql st)) = Some False \<longrightarrow> is_failure (fst (execute F sql st)))
   \<and> (success_flag (fst (execute F sql st)) = Some True \<longrightarrow>
        (case parse F sql of
           Inl e \<Rightarrow> False
         | Inr pl \<Rightarrow> payload_shape pl (fst (execute F sql st))))"
proof (cases "parse F sql")
  case (Inl e)
  then show ?thesis by (simp add: execute_def failure_flags)
next
  case (Inr pl)
  then have ex: "execute F sql st = execute_plan F pl st" by (simp add: execute_def)
  from shaped_plan [of pl F st] show ?thesis
    unfolding ex shaped_def using Inr by (auto simp: failure_flags)
qed

theorem execute_result_shape_witness:
  "success_flag (fst (execute no_floats ''SELECT * FROM categories WHERE id = 1'' books_engine))
     = Some True
   \<and> payload_shape (Select ''categories'' [''*''] (Some [(''id'', Plain (VInt 1))]))
        (fst (execute no_floats ''SELECT * FROM categories WHERE id = 1'' books_engine))
   \<and> success_flag (fst (execute no_floats ''INSERT INTO categories VALUES (1, 'Other')''
        books_engine)) = Some False
   \<and> is_failure (fst (execute no_floats ''INSERT INTO categories VALUES (1, 'Other')''
        books_engine))"
proof -
  have p: "parse no_floats ''SELECT * FROM categories WHERE id = 1''
             = Inr (Select ''categories'' [''*''] (Some [(''id'', Plain (VInt 1))]))"
    by code_simp
  have s: "success_flag (fst (execute no_floats ''SELECT * FROM categories WHERE id = 1''
             books_engine)) = Some True"
    by code_simp
  have f: "success_flag (fst (execute no_floats ''INSERT INTO categories VALUES (1, 'Other')''
        books_engine)) = Some False"
    by code_simp
  show ?thesis
    using execute_result_shape [of no_floats "''SELECT * FROM categories WHERE id = 1''"
        books_engine]
      execute_result_shape [of no_floats "''INSERT INTO categories VALUES (1, 'Other')''"
        books_engine] p s f
    by simp
qed

subsection \<open>UPDATE without WHERE\<close>

lemma parse_assignments_error:
  "parse_assignments F as acc = Inl e \<Longrightarrow> \<exists>a. e = ValueError (''Invalid assignment: '' @ a)"
  by (induction as arbitrary: acc) (auto simp: Let_def split: if_splits option.splits)

lemma parse_update_error:
  "parse_update F q = Inl e \<Longrightarrow>
     e = ValueError ''Invalid UPDATE syntax'' \<or> (\<exists>a. e = ValueError (''Invalid assignment: '' @ a))"
  by (auto simp: parse_update_def parse_set_clause_def split: option.splits sum.splits
      dest: parse_assignments_error)

text \<open>
  C2, as the code has it.  The parser has no rejection for a missing WHERE in an UPDATE: the
  only errors of \<open>_parse_update\<close> are a statement that does not match the UPDATE
  pattern and an assignment without \<open>=\<close>.  The prohibition sits in the executor: a
  statement that parses to an Update plan whose predicate is absent or empty fails with
  \<open>UPDATE without WHERE clause not allowed for safety\<close> and leaves the engine as it was.
\<close>

theorem update_without_where:
  "(parse_update F q = Inl e \<longrightarrow>
      e = ValueError ''Invalid UPDATE syntax''
      \<or> (\<exists>a. e = ValueError (''Invalid assignment: '' @ a)))
   \<and> (parse F sql = Inr (Update t ups wc) \<and> (wc = None \<or> wc = Some []) \<longrightarrow>
      execute F sql st
        = (failure (ValueError ''UPDATE without WHERE clause not allowed for safety''), st))"
  using parse_update_error [of F q e]
  by (auto simp: execute_def execute_update_def)

theorem update_without_where_witness:
  "parse no_floats ''UPDATE categories SET id = 2'' = Inr (Update ''categories'' [] None)
   \<and> execute no_floats ''UPDATE categories SET id = 2'' books_engine
       = (failure (ValueError ''UPDATE without WHERE clause not allowed for safety''),
          books_engine)
   \<and> parse_update no_floats ''UPDATE categories'' = Inl (ValueError ''Invalid UPDATE syntax'')"
proof -
  have p: "parse no_floats ''UPDATE categories SET id = 2''
            = Inr (Update ''categories'' [] None)"
    by code_simp
  have q: "parse_update no_floats ''UPDATE categories'' = Inl (ValueError ''Invalid UPDATE syntax'')"
    by code_simp
  show ?thesis
    using update_without_where [of no_floats "''UPDATE categories''"
        "ValueError ''Invalid UPDATE syntax''" "''UPDATE categories SET id = 2''"
        "''categories''" "[]" None books_engine] p q
    by simp
qed

text \<open>
  The claim C2 as the specification words it fails: the parser accepts an UPDATE without
  WHERE and returns a plan with no predicate.
\<close>

theorem update_without_where_counterexample:
  "parse no_floats ''UPDATE categories SET id = 2'' = Inr (Update ''categories'' [] None)"
  by code_simp

subsection \<open>WHERE texts without an operator\<close>

lemma parse_condition_none:
  "\<forall>opr \<in> set oprs. \<not> contains part opr \<Longrightarrow> parse_condition F part oprs conds = conds"
  by (induction oprs) simp_all

lemma parse_parts_none:
  "\<forall>part \<in> set parts. \<forall>opr \<in> set where_ops. \<not> contains (strip part) opr \<Longrightarrow>
   fold (\<lambda>part conditions. parse_condition F (strip part) where_ops conditions) parts acc = acc"
  by (induction parts arbitrary: acc) (simp_all add: parse_condition_none)

lemma parse_where_clause_operator_free:
  "\<forall>part \<in> set (re_split pat_and w). \<forall>opr \<in> set where_ops. \<not> contains (strip part) opr \<Longrightarrow>
   parse_where_clause F w = []"
  by (simp add: parse_where_clause_def parse_parts_none)

lemma matching_ordinals_empty:
  "matching_ordinals F [] irs = Inr (map fst irs)"
  by (induction irs) auto

lemma map_fst_enumerate: "map fst (List.enumerate n xs) = [n..<n + length xs]"
  by (simp add: enumerate_eq_zip)

lemma delete_loop_all:
  "\<exists>ti'. delete_loop F t (rev [0..<length rs]) (rs, Some ti) = (None, ([], Some ti'))"
proof (induction rs arbitrary: ti rule: rev_induct)
  case Nil
  then show ?case by simp
next
  case (snoc x xs)
  have "delete_loop F t (rev [0..<length (xs @ [x])]) (xs @ [x], Some ti)
        = delete_loop F t (rev [0..<length xs]) (xs, Some (unindex_row F x ti))"
    by simp
  with snoc.IH [of "unindex_row F x ti"] show ?case by auto
qed

lemma rebuild_indexes_empty: "fst (rebuild_indexes F cols []) = []"
  by (simp add: rebuild_indexes_def)

lemma delete_rows_empty_where:
  assumes "map_of (tables st) t = Some tbl" and "map_of (indexes st) t = Some ti"
  shows "fst (delete_rows F t [] st) = Inr (length (rows tbl))
         \<and> map_of (tables (snd (delete_rows F t [] st))) t = Some (tbl\<lparr>rows := []\<rparr>)"
proof -
  obtain ti' where dl: "delete_loop F t (rev [0..<length (rows tbl)]) (rows tbl, Some ti)
                         = (None, ([], Some ti'))"
    using delete_loop_all by blast
  obtain ti0 where rb: "rebuild_indexes F (columns tbl) [] = ([], ti0)"
    using rebuild_indexes_empty [of F "columns tbl"] by (cases "rebuild_indexes F (columns tbl) []") auto
  show ?thesis
    using assms dl rb
    by (simp add: delete_rows_def matching_ordinals_empty map_fst_enumerate write_back_def
        save_tables_def update_conv')
qed

lemma rev_dropWhile_last:
  "s \<noteq> [] \<Longrightarrow> \<not> P (last s) \<Longrightarrow> rev (dropWhile P (rev s)) = s"
  by (cases s rule: rev_cases) simp_all

lemma star_run:
  "\<forall>ch \<in> set u. in_cls k ch \<Longrightarrow> rmatch (Star k # r) s c = Some res \<Longrightarrow>
   rmatch (Star k # r) (u @ s) c = Some res"
  by (induction u) simp_all

lemma char_facts:
  "\<not> is_space CHR ''D''" "\<not> is_space CHR ''W''" "\<not> is_space CHR ''F''" "is_space CHR '' ''"
  "\<not> is_word CHR '' ''" "\<not> is_space CHR ''E''"
  by (simp_all add: is_space_def is_word_def is_digit_def is_upper_def is_lower_def)

lemma word_not_space: "is_word c \<Longrightarrow> \<not> is_space c"
  by (auto simp: is_space_def is_word_def is_digit_def is_upper_def is_lower_def Let_def)

lemma rmatch_where_tail:
  assumes "\<not> is_space x"
  shows "rmatch [opt_where n] ('' WHERE '' @ x # xs) c
         = Some ([], close_group n [] (open_group n (x # xs) c))"
proof -
  have any: "rmatch [Star Any, Close n] ((x # xs) @ []) c'
             = Some ([], close_group n [] c')" for c'
    by (rule star_run) simp_all
  show ?thesis
    using any assms
    by (simp add: opt_where_def spaces1_def literal_def grp_def upper_char_def is_lower_def
        char_facts)
qed

lemma rmatch_word_where:
  assumes "\<forall>ch \<in> set u. is_word ch" and "\<not> is_space x"
  shows "rmatch [Star Word, Close m, opt_where n] (u @ '' WHERE '' @ x # xs) c
         = Some ([], close_group n []
                       (open_group n (x # xs) (close_group m ('' WHERE '' @ x # xs) c)))"
proof (rule star_run)
  show "\<forall>ch \<in> set u. in_cls Word ch" using assms(1) by simp
  show "rmatch [Star Word, Close m, opt_where n] ('' WHERE '' @ x # xs) c
        = Some ([], close_group n []
                      (open_group n (x # xs) (close_group m ('' WHERE '' @ x # xs) c)))"
    using rmatch_where_tail [OF assms(2), of n xs "close_group m ('' WHERE '' @ x # xs) c"]
    by (simp add: char_facts)
qed

lemma re_match_delete:
  assumes "\<forall>ch \<in> set (a # t'). is_word ch" and "\<not> is_space x"
  shows "re_match pat_delete (''DELETE FROM '' @ (a # t') @ '' WHERE '' @ x # xs)
         = Some [(1, a # t'), (2, x # xs)]"
proof -
  have "rmatch pat_delete (''DELETE FROM '' @ (a # t') @ '' WHERE '' @ x # xs) ([], [])
        = rmatch [Star Word, Close 1, opt_where 2] (t' @ '' WHERE '' @ x # xs)
            (open_group 1 ((a # t') @ '' WHERE '' @ x # xs) ([], []))"
    using assms(1)
    by (simp add: pat_delete_def spaces1_def literal_def grp_def word1_def
        upper_char_def is_lower_def char_facts word_not_space)
  also have "\<dots> = Some ([], close_group 2 []
                       (open_group 2 (x # xs) (close_group 1 ('' WHERE '' @ x # xs)
                          (open_group 1 ((a # t') @ '' WHERE '' @ x # xs) ([], [])))))"
    using assms by (intro rmatch_word_where) simp_all
  finally show ?thesis
    by (simp add: re_match_def close_group_def open_group_def)
qed

lemma strip_identity:
  assumes "\<not> is_space y" and "\<not> is_space (last (y # ys))" and "last (y # ys) \<noteq> CHR '';''"
  shows "rstrip_semicolons (strip (y # ys)) = y # ys"
proof -
  have "lstrip (y # ys) = y # ys" using assms(1) by (simp add: lstrip_def)
  moreover have "rstrip (y # ys) = y # ys"
    unfolding rstrip_def using assms(2) by (intro rev_dropWhile_last) simp_all
  moreover have "rstrip_semicolons (y # ys) = y # ys"
    unfolding rstrip_semicolons_def using assms(3) by (intro rev_dropWhile_last) simp_all
  ultimately show ?thesis by (simp add: strip_def)
qed

lemma words_delete: "\<exists>ws. words (''DELETE '' @ s) = ''DELETE'' # ws"
  by (subst words.simps) (simp add: is_space_def)

lemma parse_delete_where:
  assumes "\<forall>ch \<in> set (a # t'). is_word ch" and "\<not> is_space x"
      and "\<not> is_space (last (x # xs))" and "last (x # xs) \<noteq> CHR '';''"
  shows "parse F (''DELETE FROM '' @ (a # t') @ '' WHERE '' @ x # xs)
         = Inr (Delete (a # t') (parse_where_clause F (x # xs)))"
proof -
  let ?q = "''DELETE FROM '' @ (a # t') @ '' WHERE '' @ x # xs"
  have q: "rstrip_semicolons (strip ?q) = ?q"
    using strip_identity [of "CHR ''D''" "''ELETE FROM '' @ (a # t') @ '' WHERE '' @ x # xs"]
      assms(3,4)
    by (simp add: is_space_def)
  obtain ws where ws: "words ?q = ''DELETE'' # ws"
    using words_delete [of "''FROM '' @ (a # t') @ '' WHERE '' @ x # xs"] by auto
  have up: "upper ''DELETE'' = ''DELETE''"
    by (simp add: upper_def upper_char_def is_lower_def)
  have pd: "parse_delete F ?q = Inr (Delete (a # t') (parse_where_clause F (x # xs)))"
    using re_match_delete [OF assms(1,2), of xs]
    by (simp add: parse_delete_def where_of_def group_def the_group_def)
  show ?thesis
    unfolding parse_def q Let_def ws using up pd by simp
qed

text \<open>
  C9, as the code has it.  When no AND-separated conjunct of a WHERE text contains one of
  the six comparison operators, the parser returns the empty predicate, and the empty
  predicate matches every row.  A statement \<open>DELETE FROM t WHERE w\<close> with such a text
  \<open>w\<close> (not empty, without surrounding whitespace or a final semicolon) on an existing
  table succeeds, reports every row deleted and leaves the table without rows.  An UPDATE
  plan with the empty predicate is not run: the executor rejects it with
  \<open>UPDATE without WHERE clause not allowed for safety\<close> and the engine stays as it was.
\<close>

theorem operator_free_where:
  assumes "\<forall>part \<in> set (re_split pat_and w). \<forall>opr \<in> set where_ops. \<not> contains (strip part) opr"
  shows "parse_where_clause F w = []
    \<and> matches_where_clause F row (parse_where_clause F w) = Inr True
    \<and> (w = x # xs \<and> \<not> is_space x \<and> \<not> is_space (last w) \<and> last w \<noteq> CHR '';''
        \<and> (\<forall>ch \<in> set (a # t'). is_word ch)
        \<and> map_of (tables st) (a # t') = Some tbl \<and> map_of (indexes st) (a # t') = Some ti
       \<longrightarrow> parse F (''DELETE FROM '' @ (a # t') @ '' WHERE '' @ w) = Inr (Delete (a # t') [])
           \<and> fst (execute F (''DELETE FROM '' @ (a # t') @ '' WHERE '' @ w) st)
               = [(''success'', RBool True),
                  (''message'', RStr (''Deleted '' @ str_of_nat (length (rows tbl))
                                       @ '' row(s)'')),
                  (''deleted_count'', RInt (int (length (rows tbl))))]
           \<and> map_of (tables (snd (execute F (''DELETE FROM '' @ (a # t') @ '' WHERE '' @ w) st)))
                (a # t') = Some (tbl\<lparr>rows := []\<rparr>))
    \<and> execute_plan F (Update t ups (Some (parse_where_clause F w))) st
        = (failure (ValueError ''UPDATE without WHERE clause not allowed for safety''), st)"
proof -
  have pw: "parse_where_clause F w = []"
    using assms by (rule parse_where_clause_operator_free)
  have del: "parse F (''DELETE FROM '' @ (a # t') @ '' WHERE '' @ w) = Inr (Delete (a # t') [])
           \<and> fst (execute F (''DELETE FROM '' @ (a # t') @ '' WHERE '' @ w) st)
               = [(''success'', RBool True),
                  (''message'', RStr (''Deleted '' @ str_of_nat (length (rows tbl))
                                       @ '' row(s)'')),
                  (''deleted_count'', RInt (int (length (rows tbl))))]
           \<and> map_of (tables (snd (execute F (''DELETE FROM '' @ (a # t') @ '' WHERE '' @ w) st)))
                (a # t') = Some (tbl\<lparr>rows := []\<rparr>)"
    if h: "w = x # xs" "\<not> is_space x" "\<not> is_space (last w)" "last w \<noteq> CHR '';''"
       "\<forall>ch \<in> set (a # t'). is_word ch"
       "map_of (tables st) (a # t') = Some tbl" "map_of (indexes st) (a # t') = Some ti"
  proof -
    have p: "parse F (''DELETE FROM '' @ (a # t') @ '' WHERE '' @ w) = Inr (Delete (a # t') [])"
      using parse_delete_where [of a t' x xs F] h pw by simp
    have d: "fst (delete_rows F (a # t') [] st) = Inr (length (rows tbl))
             \<and> map_of (tables (snd (delete_rows F (a # t') [] st))) (a # t')
                 = Some (tbl\<lparr>rows := []\<rparr>)"
      using h(6,7) by (rule delete_rows_empty_where)
    show ?thesis
      using p d by (cases "delete_rows F (a # t') [] st")
        (simp add: execute_def execute_delete_def)
  qed
  have upd: "execute_plan F (Update t ups (Some (parse_where_clause F w))) st
        = (failure (ValueError ''UPDATE without WHERE clause not allowed for safety''), st)"
    by (simp add: pw execute_update_def)
  have m: "matches_where_clause F row (parse_where_clause F w) = Inr True"
    by (simp add: pw)
  show ?thesis
    by (intro conjI impI pw m upd; elim conjE; intro del [THEN conjunct1]
        del [THEN conjunct2, THEN conjunct1] del [THEN conjunct2, THEN conjunct2]; assumption)
qed

theorem operator_free_where_witness:
  "parse_where_clause no_floats ''discontinued'' = []
   \<and> matches_where_clause no_floats books_row (parse_where_clause no_floats ''discontinued'')
       = Inr True
   \<and> parse no_floats ''DELETE FROM categories WHERE discontinued''
       = Inr (Delete ''categories'' [])
   \<and> fst (execute no_floats ''DELETE FROM categories WHERE discontinued'' books_engine)
       = [(''success'', RBool True), (''message'', RStr ''Deleted 1 row(s)''),
          (''deleted_count'', RInt 1)]
   \<and> map_of (tables (snd (execute no_floats ''DELETE FROM categories WHERE discontinued''
        books_engine))) ''categories'' = Some (categories_table\<lparr>rows := []\<rparr>)"
proof -
  have s: "re_split pat_and ''discontinued'' = [''discontinued'']"
    by code_simp
  have c: "\<forall>part \<in> set (re_split pat_and ''discontinued'').
             \<forall>opr \<in> set where_ops. \<not> contains (strip part) opr"
    unfolding s by code_simp
  have w: "\<forall>ch \<in> set ''categories''. is_word ch"
    by code_simp
  have n: "\<not> is_space CHR ''d''" "\<not> is_space (last ''discontinued'')"
    by code_simp+
  have d: "str_of_nat (length (rows categories_table)) = ''1''"
    by code_simp
  have l: "length (rows categories_table) = 1"
    by (simp add: categories_table_def)
  show ?thesis
    using operator_free_where [OF c, of no_floats books_row "CHR ''d''" "''iscontinued''"
        "CHR ''c''" "''ategories''" books_engine categories_table "[(''id'', [(VInt 1, 0)])]"]
      w n d l
    by (simp add: books_engine_def)
qed

text \<open>
  The claim C9 as the specification words it fails in its last part: an UPDATE with an
  operator-free WHERE text updates no row, the statement is refused.
\<close>

theorem operator_free_where_counterexample:
  "execute no_floats ''UPDATE categories SET id = 2 WHERE discontinued'' books_engine
     = (failure (ValueError ''UPDATE without WHERE clause not allowed for safety''),
        books_engine)"
  by code_simp

subsection \<open>Inserting a duplicate primary key\<close>

text \<open>
  The indexes cover the rows from the start and stay covering: \<open>create_table\<close> makes
  empty indexes for an empty table, \<open>insert_row\<close> adds the key of the row it appends, and
  \<open>delete_rows\<close> rebuilds the indexes from the rows that remain (for float operations
  under which a float equals itself).
\<close>

lemma idx_mem_set_other: "idx_mem F idx k \<Longrightarrow> idx_mem F (idx_set F idx k' i) k"
  by (induction idx) (auto simp: idx_mem_def)

lemma str_cmp_refl: "str_cmp s s = CEq"
  by (induction s) simp_all

lemma py_eq_refl: "\<forall>f. float_cmp F f f = CEq \<Longrightarrow> py_eq F v v"
  by (cases v) (simp_all add: py_eq_def int_cmp_def str_cmp_refl)

lemma idx_mem_set_same: "py_eq F k k \<Longrightarrow> idx_mem F (idx_set F idx k i) k"
  by (induction idx) (auto simp: idx_mem_def)

lemma map_of_index_row:
  "map_of (index_row F row i ti) c
   = map_option (\<lambda>idx. let v = row_get row c in if v \<noteq> VNone then idx_set F idx v i else idx)
       (map_of ti c)"
  by (induction ti) (auto simp: index_row_def Let_def)

lemma index_covers_index_row:
  assumes "index_covers F rs c idx" and "map_of ti c = Some idx" and "\<forall>f. float_cmp F f f = CEq"
  shows "\<exists>idx'. map_of (index_row F row i ti) c = Some idx'
               \<and> index_covers F (rs @ [row]) c idx'"
  using assms
  by (auto simp: map_of_index_row index_covers_def list_all_iff Let_def
      intro: idx_mem_set_other idx_mem_set_same py_eq_refl)

lemma insert_row_keeps_cover:
  assumes "insert_row F t row_data st = (Inr n, st')"
      and "map_of (tables st) t = Some tbl" and "map_of (indexes st) t = Some ti"
      and "map_of ti c = Some idx" and "index_covers F (rows tbl) c idx"
      and "\<forall>f. float_cmp F f f = CEq"
  shows "\<exists>tbl' ti' idx'. map_of (tables st') t = Some tbl' \<and> map_of (indexes st') t = Some ti'
           \<and> map_of ti' c = Some idx' \<and> index_covers F (rows tbl') c idx'
           \<and> primary_key tbl' = primary_key tbl \<and> columns tbl' = columns tbl"
proof -
  from assms(1,2,3) obtain vrow where
    st': "st' = save_tables
            (st\<lparr>tables := AList.update t
                   (tbl\<lparr>rows := rows tbl @ [AList.update ''_row_id'' (VInt (int (length (rows tbl)))) vrow]\<rparr>)
                   (tables st),
                indexes := AList.update t
                   (index_row F (AList.update ''_row_id'' (VInt (int (length (rows tbl)))) vrow)
                      (length (rows tbl)) ti) (indexes st)\<rparr>)"
    by (auto simp: insert_row_def Let_def split: sum.splits option.splits)
  from index_covers_index_row [OF assms(5,4,6)]
  obtain idx' where
    "map_of (index_row F (AList.update ''_row_id'' (VInt (int (length (rows tbl)))) vrow)
        (length (rows tbl)) ti) c = Some idx'"
    "index_covers F (rows tbl @ [AList.update ''_row_id'' (VInt (int (length (rows tbl)))) vrow])
        c idx'"
    by blast
  then show ?thesis
    unfolding st' by (simp add: save_tables_def update_conv')
qed

lemma create_table_covers:
  assumes "create_table t cols st = (Inr b, st')" and "map_of (indexes st') t = Some ti"
      and "map_of ti c = Some idx"
  shows "\<exists>tbl'. map_of (tables st') t = Some tbl' \<and> index_covers F (rows tbl') c idx"
  using assms
  by (auto simp: create_table_def Let_def save_tables_def update_conv' index_covers_def
      split: if_splits)

lemma index_covers_mono:
  "index_covers F rs c idx \<Longrightarrow> (\<And>k. idx_mem F idx k \<Longrightarrow> idx_mem F idx' k) \<Longrightarrow>
   index_covers F rs c idx'"
  by (auto simp: index_covers_def list_all_iff)

lemma rebuild_rows_covers:
  assumes "\<forall>f. float_cmp F f f = CEq"
  shows "rebuild_rows F i rs ti = (rs', ti') \<Longrightarrow> map_of ti c = Some idx \<Longrightarrow>
         \<exists>idx'. map_of ti' c = Some idx' \<and> index_covers F rs' c idx'
                \<and> (\<forall>k. idx_mem F idx k \<longrightarrow> idx_mem F idx' k)"
proof (induction rs arbitrary: i ti idx rs' ti')
  case Nil
  then show ?case by (simp add: index_covers_def)
next
  case (Cons row rs)
  let ?row = "AList.update ''_row_id'' (VInt (int i)) row"
  let ?idx1 = "let v = row_get ?row c in if v \<noteq> VNone then idx_set F idx v i else idx"
  obtain rs'' where r: "rebuild_rows F (Suc i) rs (index_row F ?row i ti) = (rs'', ti')"
    and rs': "rs' = ?row # rs''"
    using Cons.prems(1) by (auto simp: Let_def split: prod.splits)
  have m1: "map_of (index_row F ?row i ti) c = Some ?idx1"
    using Cons.prems(2) by (simp add: map_of_index_row)
  from Cons.IH [OF r m1] obtain idx' where
    i': "map_of ti' c = Some idx'" "index_covers F rs'' c idx'"
        "\<forall>k. idx_mem F ?idx1 k \<longrightarrow> idx_mem F idx' k"
    by blast
  have step: "idx_mem F idx k \<Longrightarrow> idx_mem F ?idx1 k" for k
    by (simp add: Let_def idx_mem_set_other)
  have mono: "idx_mem F idx k \<Longrightarrow> idx_mem F idx' k" for k
    using i'(3) step by blast
  have "row_get ?row c \<noteq> VNone \<Longrightarrow> idx_mem F ?idx1 (row_get ?row c)"
    using assms by (simp add: Let_def idx_mem_set_same py_eq_refl)
  then have here: "row_get ?row c = VNone \<or> idx_mem F idx' (row_get ?row c)"
    using i'(3) by blast
  show ?case
    using i'(1,2) mono here by (auto simp: rs' index_covers_def)
qed

lemma rebuild_start:
  "map_of acc c = Some [] \<or> (\<exists>cd. (c, cd) \<in> set cols \<and> (cd_primary_key cd \<or> cd_unique cd)) \<Longrightarrow>
   (\<forall>k idx. map_of acc k = Some idx \<longrightarrow> idx = []) \<Longrightarrow>
   map_of (fold (\<lambda>(col_name, cd) d.
                if cd_primary_key cd \<or> cd_unique cd then AList.update col_name [] d else d)
          cols acc) c = Some []"
proof (induction cols arbitrary: acc)
  case Nil
  then show ?case by simp
next
  case (Cons p cols)
  obtain k cd where p: "p = (k, cd)" by (cases p)
  show ?case
    unfolding p fold_simps
    by (rule Cons.IH) (use Cons.prems in \<open>auto simp: p update_conv' split: if_splits\<close>)
qed

lemma delete_rows_covers:
  assumes "delete_rows F t wc st = (Inr n, st')" and "map_of (tables st) t = Some tbl"
      and "(c, cd) \<in> set (columns tbl)" and "cd_primary_key cd \<or> cd_unique cd"
      and "\<forall>f. float_cmp F f f = CEq"
  shows "\<exists>tbl' ti' idx'. map_of (tables st') t = Some tbl' \<and> map_of (indexes st') t = Some ti'
           \<and> map_of ti' c = Some idx' \<and> index_covers F (rows tbl') c idx'"
proof -
  from assms(1,2) obtain ts :: "'a tstate" and rs ti where
    rb: "rebuild_indexes F (columns tbl) (fst ts) = (rs, ti)"
    and st': "st' = save_tables (write_back t tbl (rs, Some ti) st)"
    by (auto simp: delete_rows_def split: sum.splits prod.splits option.splits)
  have start: "map_of (fold (\<lambda>(col_name, cd) d.
                if cd_primary_key cd \<or> cd_unique cd then AList.update col_name [] d else d)
          (columns tbl) []) c = Some []"
    using assms(3,4) by (intro rebuild_start) auto
  from rebuild_rows_covers [OF assms(5) rb [unfolded rebuild_indexes_def] start]
  obtain idx' where "map_of ti c = Some idx'" "index_covers F rs c idx'"
    by blast
  then show ?thesis
    unfolding st' by (auto simp: save_tables_def write_back_def update_conv')
qed







subsection \<open>Uniqueness and the indexes\<close>

lemma items_one_run:
  "run no_floats
     [''CREATE TABLE items (id INT PRIMARY KEY, code INT UNIQUE)'',
      ''INSERT INTO items VALUES (1, 0)''] empty_engine = items_one"
  by code_simp

lemma stock_engine_run:
  "run no_floats
     [''CREATE TABLE stock (id INT PRIMARY KEY, qty INT)'',
      ''INSERT INTO stock VALUES (1, 10)'',
      ''INSERT INTO stock VALUES (2, 20)''] empty_engine = stock_engine"
  by code_simp

text \<open>
  C3 does not hold of the code.  \<open>insert_row\<close> looks a UNIQUE value up in its index only
  when the value is truthy (\<open>if uk_value and uk_value in ...\<close>), so \<open>0\<close>, the empty
  string and \<open>False\<close> are never checked.  On a table whose rows are unique, inserting a
  second row with \<open>code = 0\<close> succeeds, and two rows then share the non-Null value
  \<open>0\<close> in the UNIQUE column.
\<close>

theorem unique_zero_inserted_twice:
  "unique_ok no_floats items_one
   \<and> execute no_floats ''INSERT INTO items VALUES (2, 0)'' items_one
       = ([(''success'', RBool True), (''message'', RStr ''Row inserted with ID 1''),
           (''row_id'', RInt 1)], items_two)
   \<and> \<not> unique_ok no_floats items_two"
  by code_simp

text \<open>
  C4 does not hold of the code.  After the same insertion the index of \<open>code\<close> maps
  \<open>0\<close> to ordinal \<open>1\<close> only, while row \<open>0\<close> has \<open>code = 0\<close> too.  And
  \<open>update_rows\<close> stores the new value in the index as it was given, not as it was stored
  and without the Null test that \<open>insert_row\<close> and \<open>_rebuild_indexes\<close> make: setting
  the primary key to Null succeeds and leaves Null as a key of the index.
\<close>

theorem index_not_exact:
  "index_exact no_floats items_one
   \<and> snd (execute no_floats ''INSERT INTO items VALUES (2, 0)'' items_one) = items_two
   \<and> \<not> index_exact no_floats items_two
   \<and> index_exact no_floats books_engine
   \<and> fst (update_rows no_floats ''categories'' [(''id'', VNone)] [(''id'', Plain (VInt 1))]
        books_engine) = Inr 1
   \<and> indexes (snd (update_rows no_floats ''categories'' [(''id'', VNone)]
        [(''id'', Plain (VInt 1))] books_engine))
       = [(''categories'', [(''id'', [(VNone, 0)])])]
   \<and> \<not> index_exact no_floats (snd (update_rows no_floats ''categories'' [(''id'', VNone)]
        [(''id'', Plain (VInt 1))] books_engine))"
  by code_simp

subsection \<open>A failing update\<close>




lemma update_rows_disk:
  "fst (update_rows F t ups wc st) = Inl e \<Longrightarrow>
   disk_tables (snd (update_rows F t ups wc st)) = disk_tables st
   \<and> disk_indexes (snd (update_rows F t ups wc st)) = disk_indexes st"
  by (auto simp: update_rows_def write_back_def split: option.splits prod.splits sum.splits)



end
